theory Spec2Isabelle
  imports Complex_Main "HOL-Library.Word"
begin

section \<open>Shift estimation from a phase-correlation surface\<close>

text \<open>
  A shallow embedding of \<^verbatim>\<open>MaxPhaseCorrelationOptimizer::ComputeOffset\<close>
  (\<^verbatim>\<open>itkMaxPhaseCorrelationOptimizer.hxx\<close>).

  Conventions of the embedding.
  \<^item> \<^verbatim>\<open>ImageDimension\<close> is a parameter (\<open>N\<close>, or a field of the record \<open>build\<close>);
    an index, a size, a spacing or an origin is a list with that many components,
    read with \<open>!\<close> as the source reads \<^verbatim>\<open>[d]\<close>.
  \<^item> \<^verbatim>\<open>IndexValueType\<close> values are \<open>int\<close>, \<^verbatim>\<open>SizeValueType\<close> values are \<open>nat\<close>.
    The two products of the user-set \<^verbatim>\<open>m_PixelDistanceTolerance\<close> are taken modulo
    \<open>2 ^ 64\<close> as the unsigned arithmetic of the source does; index arithmetic on
    image coordinates is assumed not to overflow.
  \<^item> Pixel values are \<open>real\<close>: rounding, overflow and underflow of the binary
    floating-point formats are outside the model. Where the source divides
    unguarded in the interpolator and the resolver, the quotient is an \<open>xreal\<close>,
    which keeps the non-finite results of a division by zero apart from the
    finite ones.
  \<^item> The preprocessor symbol \<^verbatim>\<open>NDEBUG\<close> is a boolean field of the record \<open>build\<close>.
  \<^item> The maxima calculator is a parameter of the computation. The optimizer's
    results \<^verbatim>\<open>m_Offsets\<close> and \<^verbatim>\<open>m_Confidences\<close> are a state that the computation
    takes and returns; an exception is the left summand of the result.
\<close>

subsection \<open>Data\<close>

datatype PeakInterpolationMethod = PIM_None | Parabolic | Cosine

record optimizer_config =
  m_PeakInterpolationMethod :: PeakInterpolationMethod
  m_MergePeaks :: nat
  m_ZeroSuppression :: real
  m_PixelDistanceTolerance :: nat

text \<open>An image: its region (start index and size) and its pixels by index.\<close>

record image =
  regionIndex :: "int list"
  regionSize :: "nat list"
  pixels :: "int list \<Rightarrow> real"

text \<open>The inputs of the filter: input 0 is the correlation surface, which may be
  absent; of inputs 1 and 2 (fixed and moving image) only spacing and origins are read.\<close>

record optimizer_inputs =
  input :: "image option"
  spacing :: "real list"
  fixedOrigin :: "real list"
  movingOrigin :: "real list"

text \<open>What is fixed when the template is instantiated and compiled: whether
  \<^verbatim>\<open>NDEBUG\<close> is defined, \<^verbatim>\<open>ImageDimension\<close>, and
  \<^verbatim>\<open>std::numeric_limits<OffsetScalarType>::epsilon()\<close> (the scalar type is declared
  by the superclass).\<close>

record build =
  NDEBUG :: bool
  ImageDimension :: nat
  epsilon :: real

subsection \<open>Scalars with the non-finite results of division\<close>

text \<open>
  A value of \<^verbatim>\<open>OffsetScalarType\<close>: a finite number, an infinity or a NaN, with the
  results IEEE 754 gives the operations the source applies to them. Rounding and
  the sign of zero are not modelled: a zero divisor is taken as \<open>+0\<close>.
\<close>

datatype xreal = Fin real | PInf | MInf | NaN

definition infOfSign :: "real \<Rightarrow> xreal" where
  "infOfSign s = (if 0 < s then PInf else if s < 0 then MInf else NaN)"

fun xsgn :: "xreal \<Rightarrow> real" where
  "xsgn (Fin r) = sgn r"
| "xsgn PInf = 1"
| "xsgn MInf = - 1"
| "xsgn NaN = 0"

fun xneg :: "xreal \<Rightarrow> xreal" where
  "xneg (Fin r) = Fin (- r)"
| "xneg PInf = MInf"
| "xneg MInf = PInf"
| "xneg NaN = NaN"

fun xadd :: "xreal \<Rightarrow> xreal \<Rightarrow> xreal" where
  "xadd (Fin a) (Fin b) = Fin (a + b)"
| "xadd NaN _ = NaN"
| "xadd _ NaN = NaN"
| "xadd PInf MInf = NaN"
| "xadd MInf PInf = NaN"
| "xadd PInf _ = PInf"
| "xadd _ PInf = PInf"
| "xadd MInf _ = MInf"
| "xadd _ MInf = MInf"

definition xsub :: "xreal \<Rightarrow> xreal \<Rightarrow> xreal" where
  "xsub a b = xadd a (xneg b)"

fun xmul :: "xreal \<Rightarrow> xreal \<Rightarrow> xreal" where
  "xmul (Fin a) (Fin b) = Fin (a * b)"
| "xmul NaN _ = NaN"
| "xmul _ NaN = NaN"
| "xmul a b = infOfSign (xsgn a * xsgn b)"

fun xdiv :: "xreal \<Rightarrow> xreal \<Rightarrow> xreal" where
  "xdiv (Fin a) (Fin b) = (if b \<noteq> 0 then Fin (a / b) else infOfSign (sgn a))"
| "xdiv NaN _ = NaN"
| "xdiv _ NaN = NaN"
| "xdiv (Fin a) _ = Fin 0"
| "xdiv a (Fin b) = (if b = 0 then a else infOfSign (xsgn a * sgn b))"
| "xdiv _ _ = NaN"

fun xlt :: "xreal \<Rightarrow> xreal \<Rightarrow> bool" where
  "xlt (Fin a) (Fin b) = (a < b)"
| "xlt NaN _ = False"
| "xlt _ NaN = False"
| "xlt MInf MInf = False"
| "xlt MInf _ = True"
| "xlt _ MInf = False"
| "xlt PInf _ = False"
| "xlt _ PInf = True"

fun xeq :: "xreal \<Rightarrow> xreal \<Rightarrow> bool" where
  "xeq NaN _ = False"
| "xeq _ NaN = False"
| "xeq a b = (a = b)"

definition xle :: "xreal \<Rightarrow> xreal \<Rightarrow> bool" where
  "xle a b = (xlt a b \<or> xeq a b)"

fun xabs :: "xreal \<Rightarrow> xreal" where
  "xabs (Fin r) = Fin \<bar>r\<bar>"
| "xabs PInf = PInf"
| "xabs MInf = PInf"
| "xabs NaN = NaN"

text \<open>Whether a value is a finite number.\<close>

fun xfinite :: "xreal \<Rightarrow> bool" where
  "xfinite (Fin r) = True"
| "xfinite _ = False"

text \<open>\<^verbatim>\<open>std::min(a, b)\<close> is \<^verbatim>\<open>(b < a) ? b : a\<close> and \<^verbatim>\<open>std::max(a, b)\<close> is
  \<^verbatim>\<open>(a < b) ? b : a\<close>.\<close>

definition std_min :: "xreal \<Rightarrow> xreal \<Rightarrow> xreal" where
  "std_min a b = (if xlt b a then b else a)"

definition std_max :: "xreal \<Rightarrow> xreal \<Rightarrow> xreal" where
  "std_max a b = (if xlt a b then b else a)"

fun xacos :: "xreal \<Rightarrow> xreal" where
  "xacos (Fin r) = (if - 1 \<le> r \<and> r \<le> 1 then Fin (arccos r) else NaN)"
| "xacos _ = NaN"

fun xsin :: "xreal \<Rightarrow> xreal" where
  "xsin (Fin r) = Fin (sin r)"
| "xsin _ = NaN"

fun xatan :: "xreal \<Rightarrow> xreal" where
  "xatan (Fin r) = Fin (arctan r)"
| "xatan PInf = Fin (pi / 2)"
| "xatan MInf = Fin (- (pi / 2))"
| "xatan NaN = NaN"

text \<open>The conversion of a floating-point value to \<^verbatim>\<open>IndexValueType\<close> truncates
  towards zero; it is undefined on a non-finite value, where the model gives 0.\<close>

definition truncToIndex :: "real \<Rightarrow> int" where
  "truncToIndex x = (if 0 \<le> x then \<lfloor>x\<rfloor> else \<lceil>x\<rceil>)"

fun xtrunc :: "xreal \<Rightarrow> int" where
  "xtrunc (Fin r) = truncToIndex r"
| "xtrunc _ = 0"

text \<open>The optimizer's results, members of the superclass: one offset vector and one
  confidence per reported peak.\<close>

record optimizer_state =
  m_Offsets :: "xreal list list"
  m_Confidences :: "real list"

datatype error = MaxCalculatorException | MaximaIndicesSizeMismatch

text \<open>The maxima calculator (\<^verbatim>\<open>NMinimaMaximaImageCalculator\<close>) is a collaborator:
  from an image and a count it returns maxima and their indices, or throws.\<close>

type_synonym max_calculator = "image \<Rightarrow> nat \<Rightarrow> error + (real list \<times> int list list)"

subsection \<open>The biased surface\<close>

definition adjustedSize :: "image \<Rightarrow> nat \<Rightarrow> int" where
  "adjustedSize img d = int (regionSize img ! d) + regionIndex img ! d"

definition imageSize2 :: "nat \<Rightarrow> image \<Rightarrow> real" where
  "imageSize2 N img =
     fold (\<lambda>d s. s + real_of_int (adjustedSize img d * adjustedSize img d)) [0..<N] 0"

definition directExpectedIndex :: "optimizer_inputs \<Rightarrow> image \<Rightarrow> nat \<Rightarrow> int" where
  "directExpectedIndex inp img d =
     truncToIndex ((movingOrigin inp ! d - fixedOrigin inp ! d) / spacing inp ! d
                   + real_of_int (regionIndex img ! d))"

definition mirrorExpectedIndex :: "optimizer_inputs \<Rightarrow> image \<Rightarrow> nat \<Rightarrow> int" where
  "mirrorExpectedIndex inp img d =
     truncToIndex ((movingOrigin inp ! d - fixedOrigin inp ! d) / spacing inp ! d
                   + real_of_int (adjustedSize img d))"

definition distancePenaltyFactor :: "nat \<Rightarrow> optimizer_config \<Rightarrow> image \<Rightarrow> real" where
  "distancePenaltyFactor N cfg img =
     (if m_PixelDistanceTolerance cfg = 0
      then - 10 / imageSize2 N img
      else ln (9 / 10)
           / real ((m_PixelDistanceTolerance cfg * m_PixelDistanceTolerance cfg) mod 2 ^ 64))"

text \<open>\<^verbatim>\<open>IndexValueType zeroDist2 = 100 * m_PixelDistanceTolerance * m_PixelDistanceTolerance\<close>:
  an unsigned 64-bit product read back as a signed value.\<close>

definition zeroDist2 :: "optimizer_config \<Rightarrow> int" where
  "zeroDist2 cfg =
     sint (word_of_nat (100 * m_PixelDistanceTolerance cfg * m_PixelDistanceTolerance cfg)
           :: 64 word)"

definition biasDistStep :: "optimizer_inputs \<Rightarrow> image \<Rightarrow> int list \<Rightarrow> nat \<Rightarrow> int \<Rightarrow> int" where
  "biasDistStep inp img ind d dst =
     (let distDirect = (directExpectedIndex inp img d - ind ! d)
                       * (directExpectedIndex inp img d - ind ! d);
          distMirror = (mirrorExpectedIndex inp img d - ind ! d)
                       * (mirrorExpectedIndex inp img d - ind ! d)
      in if distDirect \<le> distMirror then dst + distDirect else dst + distMirror)"

definition biasDist :: "nat \<Rightarrow> optimizer_inputs \<Rightarrow> image \<Rightarrow> int list \<Rightarrow> int" where
  "biasDist N inp img ind = fold (biasDistStep inp img ind) [0..<N] 0"

definition biasPixel ::
  "build \<Rightarrow> optimizer_config \<Rightarrow> optimizer_inputs \<Rightarrow> image \<Rightarrow> int list \<Rightarrow> real \<Rightarrow> real" where
  "biasPixel b cfg inp img ind v =
     (let dst = biasDist (ImageDimension b) inp img ind
      in if m_PixelDistanceTolerance cfg > 0 \<and> dst > zeroDist2 cfg
         then 0
         else (let pixel = v * exp (distancePenaltyFactor (ImageDimension b) cfg img
                                    * real_of_int dst)
               in if NDEBUG b then pixel else pixel * 1000))"

definition biasField :: "build \<Rightarrow> optimizer_config \<Rightarrow> optimizer_inputs \<Rightarrow> image \<Rightarrow> image" where
  "biasField b cfg inp img =
     img\<lparr>pixels := \<lambda>ind. biasPixel b cfg inp img ind (pixels img ind)\<rparr>"

text \<open>The squared distance in closed form: over the axes, the sum of the smaller of
  the squared distances to the direct and to the mirror expected index.\<close>

definition nearestExpectedDist2 :: "nat \<Rightarrow> optimizer_inputs \<Rightarrow> image \<Rightarrow> int list \<Rightarrow> int" where
  "nearestExpectedDist2 N inp img ind =
     (\<Sum>d<N. min ((directExpectedIndex inp img d - ind ! d)\<^sup>2)
                  ((mirrorExpectedIndex inp img d - ind ! d)\<^sup>2))"

text \<open>The distance as the text of the specification words it: the minimum, over
  the axes, of the same per-axis quantity.\<close>

definition minOverAxesDist2 :: "nat \<Rightarrow> optimizer_inputs \<Rightarrow> image \<Rightarrow> int list \<Rightarrow> int" where
  "minOverAxesDist2 N inp img ind =
     Min ((\<lambda>d. min ((directExpectedIndex inp img d - ind ! d)\<^sup>2)
                     ((mirrorExpectedIndex inp img d - ind ! d)\<^sup>2)) ` {..<N})"

subsection \<open>Suppression of the zero solution\<close>

definition znSize :: int where
  "znSize = 4"

definition zsDistStep :: "image \<Rightarrow> int list \<Rightarrow> nat \<Rightarrow> int \<Rightarrow> int" where
  "zsDistStep img ind d dst =
     (let distD = ind ! d - regionIndex img ! d;
          distD' = (if distD > int (regionSize img ! d div 2)
                    then int (regionSize img ! d) - distD else distD)
      in dst + distD')"

definition zsDist :: "nat \<Rightarrow> image \<Rightarrow> int list \<Rightarrow> int" where
  "zsDist N img ind = fold (zsDistStep img ind) [0..<N] 0"

definition zsZeroIndex :: "nat \<Rightarrow> image \<Rightarrow> int list \<Rightarrow> bool" where
  "zsZeroIndex N img ind =
     fold (\<lambda>d pixelValid. if ind ! d = regionIndex img ! d then True else pixelValid)
          [0..<N] False"

definition zsPixel :: "nat \<Rightarrow> optimizer_config \<Rightarrow> image \<Rightarrow> int list \<Rightarrow> real \<Rightarrow> real" where
  "zsPixel N cfg img ind v =
     (let dst = zsDist N img ind;
          pixelValid = (if dst < znSize then True else zsZeroIndex N img ind)
      in if pixelValid
         then v * (real_of_int (dst + 10) / (m_ZeroSuppression cfg + real_of_int dst + 10))
         else v)"

definition zeroSuppress :: "nat \<Rightarrow> optimizer_config \<Rightarrow> image \<Rightarrow> image \<Rightarrow> image" where
  "zeroSuppress N cfg img iAdjusted =
     (if m_ZeroSuppression cfg > 0
      then iAdjusted\<lparr>pixels := \<lambda>ind. zsPixel N cfg img ind (pixels iAdjusted ind)\<rparr>
      else iAdjusted)"


subsection \<open>Maxima requested from the calculator\<close>

text \<open>
  \<^verbatim>\<open>std::ceil(this->m_Offsets.size() / 2) * (static_cast<unsigned>(std::pow(3, ImageDimension)) - 1)\<close>:
  the quotient \<^verbatim>\<open>size() / 2\<close> is a division of unsigned integers, and
  \<^verbatim>\<open>std::ceil\<close> is applied to its integral result.
\<close>

definition requestedMaxima :: "nat \<Rightarrow> nat \<Rightarrow> nat \<Rightarrow> nat" where
  "requestedMaxima mergePeaks offsetCount N =
     (if mergePeaks \<noteq> 0
      then nat \<lceil>real (offsetCount div 2)\<rceil> * (3 ^ N - 1)
      else offsetCount)"

lemma requestedMaxima_merging:
  "mergePeaks \<noteq> 0 \<Longrightarrow> requestedMaxima mergePeaks n N = (n div 2) * (3 ^ N - 1)"
  by (simp add: requestedMaxima_def)

lemma requestedMaxima_no_merging: "requestedMaxima 0 n N = n"
  by (simp add: requestedMaxima_def)

subsection \<open>Candidate peaks: dropping, merging, ranking, truncating\<close>

text \<open>
  \<^verbatim>\<open>std::upper_bound(first, last, value, comp)\<close>, the binary search of the standard
  library, with \<^verbatim>\<open>std::greater\<close> as \<open>comp\<close>: the test on the middle element is
  \<^verbatim>\<open>comp(value, *middle)\<close>, that is \<open>value > *middle\<close>.
\<close>

function upper_bound_greater :: "real list \<Rightarrow> real \<Rightarrow> nat \<Rightarrow> nat \<Rightarrow> nat" where
  "upper_bound_greater xs v first len =
     (if 0 < len
      then (let half = len div 2; middle = first + half
            in if v > xs ! middle
               then upper_bound_greater xs v first half
               else upper_bound_greater xs v (middle + 1) (len - half - 1))
      else first)"
  by pat_completeness auto
termination
  by (relation "measure (\<lambda>(xs, v, first, len). len)") auto

definition zeroBound :: "real list \<Rightarrow> nat" where
  "zeroBound confs = upper_bound_greater confs 0 0 (length confs)"

definition dropFromZeroBound :: "real list \<times> int list list \<Rightarrow> real list \<times> int list list" where
  "dropFromZeroBound ci =
     (let i = zeroBound (fst ci)
      in if i \<noteq> length (fst ci) then (take i (fst ci), take i (snd ci)) else ci)"

text \<open>The distance of two indices along one axis, in \<^verbatim>\<open>SizeValueType\<close>:
  \<^verbatim>\<open>size[d] - d1\<close> is an unsigned 64-bit difference.\<close>

definition axisWrapDist :: "nat \<Rightarrow> int \<Rightarrow> int \<Rightarrow> nat" where
  "axisWrapDist sz a b =
     (let d1 = nat \<bar>a - b\<bar>
      in if d1 > sz div 2 then (2 ^ 64 + sz - d1) mod 2 ^ 64 else d1)"

definition peakDist :: "nat \<Rightarrow> nat list \<Rightarrow> int list \<Rightarrow> int list \<Rightarrow> nat" where
  "peakDist N sz a b = fold (\<lambda>d dst. max dst (axisWrapDist (sz ! d) (a ! d) (b ! d))) [0..<N] 0"

function findNearby :: "nat \<Rightarrow> nat list \<Rightarrow> nat \<Rightarrow> int list list \<Rightarrow> nat \<Rightarrow> nat \<Rightarrow> nat" where
  "findNearby N sz mergePeaks indices i k =
     (if k < i
      then (if peakDist N sz (indices ! i) (indices ! k) \<le> mergePeaks
            then k
            else findNearby N sz mergePeaks indices i (Suc k))
      else k)"
  by pat_completeness auto
termination
  by (relation "measure (\<lambda>(N, sz, mergePeaks, indices, i, k). i - k)") auto

definition erase :: "nat \<Rightarrow> 'a list \<Rightarrow> 'a list" where
  "erase i xs = take i xs @ drop (Suc i) xs"

function mergeLoop ::
  "nat \<Rightarrow> nat list \<Rightarrow> nat \<Rightarrow> nat \<Rightarrow> real list \<times> int list list \<Rightarrow> real list \<times> int list list" where
  "mergeLoop N sz mergePeaks i (confs, indices) =
     (if i < length indices
      then (let k = findNearby N sz mergePeaks indices i 0
            in if k < i
               then mergeLoop N sz mergePeaks i
                      (erase i (confs[k := confs ! k + confs ! i]), erase i indices)
               else mergeLoop N sz mergePeaks (Suc i) (confs, indices))
      else (confs, indices))"
  by pat_completeness auto
termination
  by (relation "measure (\<lambda>(N, sz, mergePeaks, i, confs, indices). length indices - i)")
     (auto simp: erase_def)

text \<open>The ranking after the merge. \<^verbatim>\<open>std::sort\<close> leaves the order of equal
  confidences open; the model keeps them in their earlier order.\<close>

definition resort :: "real list \<times> int list list \<Rightarrow> real list \<times> int list list" where
  "resort ci =
     (let sIndices = sort_key (\<lambda>a. - (fst ci ! a)) [0..<length (fst ci)]
      in (map (\<lambda>s. fst ci ! s) sIndices, map (\<lambda>s. snd ci ! s) sIndices))"

definition mergePeaks ::
  "nat \<Rightarrow> optimizer_config \<Rightarrow> image \<Rightarrow> real list \<times> int list list \<Rightarrow> real list \<times> int list list" where
  "mergePeaks N cfg img ci =
     (if m_MergePeaks cfg > 0
      then resort (mergeLoop N (regionSize img) (m_MergePeaks cfg) 1 ci)
      else ci)"

text \<open>\<^verbatim>\<open>std::vector::resize\<close>.\<close>

definition resize :: "nat \<Rightarrow> 'a \<Rightarrow> 'a list \<Rightarrow> 'a list" where
  "resize n x xs = take n xs @ replicate (n - length xs) x"

text \<open>
  Modelled from the spec: \<^verbatim>\<open>SetOffsetCount\<close> is a method of the superclass
  \<^verbatim>\<open>PhaseCorrelationOptimizer\<close>, whose source is not among the sources embedded here.
  The text has it shrink the requested output count to the number of candidates
  that remain; the offsets it adds or keeps are overwritten before the call ends.
\<close>

definition SetOffsetCount :: "nat \<Rightarrow> nat \<Rightarrow> optimizer_state \<Rightarrow> optimizer_state" where
  "SetOffsetCount N n st = st\<lparr>m_Offsets := resize n (replicate N (Fin 0)) (m_Offsets st)\<rparr>"

definition truncateToCount ::
  "nat \<Rightarrow> optimizer_state \<Rightarrow> int list list \<Rightarrow> optimizer_state \<times> int list list" where
  "truncateToCount N st indices =
     (if length (m_Offsets st) > length (m_Confidences st)
      then (SetOffsetCount N (length (m_Confidences st)) st, indices)
      else (st\<lparr>m_Confidences := resize (length (m_Offsets st)) 0 (m_Confidences st)\<rparr>,
            resize (length (m_Offsets st)) [] indices))"

subsection \<open>Interpolation of a peak\<close>

definition IsInside :: "nat \<Rightarrow> image \<Rightarrow> int list \<Rightarrow> bool" where
  "IsInside N img ind =
     list_all (\<lambda>d. regionIndex img ! d \<le> ind ! d
                    \<and> ind ! d < regionIndex img ! d + int (regionSize img ! d)) [0..<N]"

definition parabolicStep :: "real \<Rightarrow> real \<Rightarrow> real \<Rightarrow> xreal \<Rightarrow> xreal" where
  "parabolicStep y0 y1 y2 x = xadd x (xdiv (Fin (y0 - y2)) (Fin (2 * (y0 - 2 * y1 + y2))))"

definition cosineStep :: "real \<Rightarrow> nat \<Rightarrow> real \<Rightarrow> real \<Rightarrow> real \<Rightarrow> xreal \<Rightarrow> xreal" where
  "cosineStep eps m y0 y1 y2 x =
     (let ratio = xdiv (Fin (y0 + y2)) (Fin (2 * y1));
          ratio = (if m > 0
                   then std_max (std_min ratio (Fin (1 - eps))) (Fin (- 1 + eps))
                   else ratio);
          omega = xacos ratio;
          theta = xatan (xdiv (Fin (y0 - y2)) (xmul (Fin (2 * y1)) (xsin omega)))
      in xsub x (xdiv (xmul (Fin (1 / pi)) theta) omega))"

text \<open>One round of the loop over the axes. The state is \<^verbatim>\<open>tempIndex\<close> and
  \<^verbatim>\<open>maxIndex\<close>; \<open>y1\<close> is \<^verbatim>\<open>this->m_Confidences[m]\<close>, read once before the loop.\<close>

definition interpolateAxis ::
  "build \<Rightarrow> optimizer_config \<Rightarrow> image \<Rightarrow> image \<Rightarrow> nat \<Rightarrow> real \<Rightarrow> nat
   \<Rightarrow> int list \<times> xreal list \<Rightarrow> int list \<times> xreal list" where
  "interpolateAxis b cfg img iAdjusted m y1 i tm =
     (let tempIndex = fst tm; maxIndex = snd tm;
          tempIndex = tempIndex[i := xtrunc (xsub (maxIndex ! i) (Fin 1))]
      in if \<not> IsInside (ImageDimension b) img tempIndex
         then (tempIndex[i := xtrunc (maxIndex ! i)], maxIndex)
         else
          (let y0 = pixels iAdjusted tempIndex;
               tempIndex = tempIndex[i := xtrunc (xadd (maxIndex ! i) (Fin 1))]
           in if \<not> IsInside (ImageDimension b) img tempIndex
              then (tempIndex[i := xtrunc (maxIndex ! i)], maxIndex)
              else
               (let y2 = pixels iAdjusted tempIndex;
                    tempIndex = tempIndex[i := xtrunc (maxIndex ! i)]
                in case m_PeakInterpolationMethod cfg of
                     Parabolic \<Rightarrow>
                       (tempIndex, maxIndex[i := parabolicStep y0 y1 y2 (maxIndex ! i)])
                   | Cosine \<Rightarrow>
                       (tempIndex, maxIndex[i := cosineStep (epsilon b) m y0 y1 y2 (maxIndex ! i)])
                   | PIM_None \<Rightarrow> (tempIndex, maxIndex))))"

definition interpolatePeak ::
  "build \<Rightarrow> optimizer_config \<Rightarrow> image \<Rightarrow> image \<Rightarrow> nat \<Rightarrow> real \<Rightarrow> int list \<Rightarrow> xreal list" where
  "interpolatePeak b cfg img iAdjusted m y1 ind =
     (let maxIndex = map (\<lambda>k. Fin (real_of_int k)) ind
      in if m_PeakInterpolationMethod cfg \<noteq> PIM_None
         then snd (fold (interpolateAxis b cfg img iAdjusted m y1) [0..<ImageDimension b]
                        (ind, maxIndex))
         else maxIndex)"

subsection \<open>From a continuous index to an offset\<close>

definition directOffset :: "optimizer_inputs \<Rightarrow> image \<Rightarrow> nat \<Rightarrow> xreal \<Rightarrow> xreal" where
  "directOffset inp img i x =
     xsub (Fin (movingOrigin inp ! i - fixedOrigin inp ! i))
          (xmul (Fin (1 * spacing inp ! i)) (xsub x (Fin (real_of_int (regionIndex img ! i)))))"

definition mirrorOffset :: "optimizer_inputs \<Rightarrow> image \<Rightarrow> nat \<Rightarrow> xreal \<Rightarrow> xreal" where
  "mirrorOffset inp img i x =
     xsub (Fin (movingOrigin inp ! i - fixedOrigin inp ! i))
          (xmul (Fin (1 * spacing inp ! i)) (xsub x (Fin (real_of_int (adjustedSize img i)))))"

definition resolveAxis :: "optimizer_inputs \<Rightarrow> image \<Rightarrow> nat \<Rightarrow> xreal \<Rightarrow> xreal" where
  "resolveAxis inp img i x =
     (if xle (xabs (directOffset inp img i x)) (xabs (mirrorOffset inp img i x))
      then directOffset inp img i x
      else mirrorOffset inp img i x)"

definition resolveOffset ::
  "nat \<Rightarrow> optimizer_inputs \<Rightarrow> image \<Rightarrow> xreal list \<Rightarrow> xreal list \<Rightarrow> xreal list" where
  "resolveOffset N inp img maxIndex offset =
     fold (\<lambda>i off. off[i := resolveAxis inp img i (maxIndex ! i)]) [0..<N] offset"

text \<open>One round of the loop over the retained peaks. The state is the local
  \<^verbatim>\<open>offset\<close>, which lives across the rounds, and the optimizer's members.\<close>

definition peakStep ::
  "build \<Rightarrow> optimizer_config \<Rightarrow> optimizer_inputs \<Rightarrow> image \<Rightarrow> image \<Rightarrow> int list list \<Rightarrow> nat
   \<Rightarrow> xreal list \<times> optimizer_state \<Rightarrow> xreal list \<times> optimizer_state" where
  "peakStep b cfg inp img iAdjusted indices m os =
     (let offset = fst os; st = snd os;
          maxIndex = interpolatePeak b cfg img iAdjusted m (m_Confidences st ! m) (indices ! m);
          offset = resolveOffset (ImageDimension b) inp img maxIndex offset;
          st = (if NDEBUG b
                then st\<lparr>m_Confidences := (m_Confidences st)[m := m_Confidences st ! m * 1000]\<rparr>
                else st)
      in (offset, st\<lparr>m_Offsets := (m_Offsets st)[m := offset]\<rparr>))"

subsection \<open>The whole computation\<close>

definition afterMaxima ::
  "build \<Rightarrow> optimizer_config \<Rightarrow> optimizer_inputs \<Rightarrow> image \<Rightarrow> image
   \<Rightarrow> real list \<times> int list list \<Rightarrow> optimizer_state \<Rightarrow> optimizer_state" where
  "afterMaxima b cfg inp img iAdjusted ci st =
     (let ci = mergePeaks (ImageDimension b) cfg img (dropFromZeroBound ci);
          (st, indices) = truncateToCount (ImageDimension b) (st\<lparr>m_Confidences := fst ci\<rparr>) (snd ci)
      in snd (fold (peakStep b cfg inp img iAdjusted indices) [0..<length (m_Confidences st)]
                   (replicate (ImageDimension b) (Fin 0), st)))"

definition adjustedSurface :: "build \<Rightarrow> optimizer_config \<Rightarrow> optimizer_inputs \<Rightarrow> image \<Rightarrow> image" where
  "adjustedSurface b cfg inp img =
     zeroSuppress (ImageDimension b) cfg img (biasField b cfg inp img)"

definition ComputeOffset ::
  "build \<Rightarrow> optimizer_config \<Rightarrow> max_calculator \<Rightarrow> optimizer_inputs \<Rightarrow> optimizer_state
   \<Rightarrow> error + optimizer_state" where
  "ComputeOffset b cfg maxCalculator inp st =
     (case input inp of
        None \<Rightarrow> Inr st
      | Some img \<Rightarrow>
          (let iAdjusted = adjustedSurface b cfg inp img;
               n = requestedMaxima (m_MergePeaks cfg) (length (m_Offsets st)) (ImageDimension b)
           in case maxCalculator iAdjusted n of
                Inl err \<Rightarrow> Inl err
              | Inr ci \<Rightarrow>
                  if length (fst ci) \<noteq> length (snd ci)
                  then Inl MaximaIndicesSizeMismatch
                  else Inr (afterMaxima b cfg inp img iAdjusted ci st)))"

subsection \<open>Closed forms\<close>

text \<open>The city-block distance of an index to the start index of the region, each axis
  wrapped around when it exceeds half the extent.\<close>

definition wrapCityBlockDist :: "nat \<Rightarrow> image \<Rightarrow> int list \<Rightarrow> int" where
  "wrapCityBlockDist N img ind =
     (\<Sum>d<N. if ind ! d - regionIndex img ! d > int (regionSize img ! d div 2)
              then int (regionSize img ! d) - (ind ! d - regionIndex img ! d)
              else ind ! d - regionIndex img ! d)"

text \<open>What the loop over the axes leaves in \<^verbatim>\<open>maxIndex[i]\<close>, in terms of the peak's
  index \<open>ind\<close> and the centre value \<open>y1\<close> the loop is given.\<close>

definition refinedAxis ::
  "build \<Rightarrow> optimizer_config \<Rightarrow> image \<Rightarrow> image \<Rightarrow> nat \<Rightarrow> real \<Rightarrow> int list \<Rightarrow> nat \<Rightarrow> xreal" where
  "refinedAxis b cfg img iAdjusted m y1 ind i =
     (if IsInside (ImageDimension b) img (ind[i := ind ! i - 1])
         \<and> IsInside (ImageDimension b) img (ind[i := ind ! i + 1])
      then (case m_PeakInterpolationMethod cfg of
              Parabolic \<Rightarrow>
                parabolicStep (pixels iAdjusted (ind[i := ind ! i - 1])) y1
                              (pixels iAdjusted (ind[i := ind ! i + 1]))
                              (Fin (real_of_int (ind ! i)))
            | Cosine \<Rightarrow>
                cosineStep (epsilon b) m (pixels iAdjusted (ind[i := ind ! i - 1])) y1
                           (pixels iAdjusted (ind[i := ind ! i + 1]))
                           (Fin (real_of_int (ind ! i)))
            | PIM_None \<Rightarrow> Fin (real_of_int (ind ! i)))
      else Fin (real_of_int (ind ! i)))"

text \<open>The candidates that reach the loop over the peaks when \<open>n\<close> offsets are asked
  for, the offset vector computed for one of them, and the scaling of its
  confidence.\<close>

definition retainedPeaks ::
  "nat \<Rightarrow> optimizer_config \<Rightarrow> image \<Rightarrow> nat \<Rightarrow> real list \<times> int list list \<Rightarrow> real list \<times> int list list" where
  "retainedPeaks N cfg img n ci =
     (let mc = mergePeaks N cfg img (dropFromZeroBound ci)
      in (take n (fst mc), take n (snd mc)))"

definition peakOffset ::
  "build \<Rightarrow> optimizer_config \<Rightarrow> optimizer_inputs \<Rightarrow> image \<Rightarrow> image \<Rightarrow> nat \<Rightarrow> real \<Rightarrow> int list
   \<Rightarrow> xreal list" where
  "peakOffset b cfg inp img iAdjusted m y1 ind =
     map (\<lambda>i. resolveAxis inp img i (interpolatePeak b cfg img iAdjusted m y1 ind ! i))
         [0..<ImageDimension b]"

definition scaleConfidence :: "build \<Rightarrow> real \<Rightarrow> real" where
  "scaleConfidence b c = (if NDEBUG b then c * 1000 else c)"

text \<open>The cut as the text of the specification words it: every candidate from the
  first confidence that is not positive onward is dropped.\<close>

definition dropFromFirstNonPositive ::
  "real list \<times> int list list \<Rightarrow> real list \<times> int list list" where
  "dropFromFirstNonPositive ci =
     (let i = length (takeWhile (\<lambda>c. 0 < c) (fst ci))
      in (take i (fst ci), take i (snd ci)))"

subsection \<open>A sample run\<close>

text \<open>The defaults of the class, a release build in one dimension, and a line of 64
  samples that is 0 everywhere but at index 10, where the geometry expects the
  shift. \<open>maximaAt\<close> is a calculator that reports the samples at given indices.\<close>

definition defaultConfig :: optimizer_config where
  "defaultConfig =
     \<lparr>m_PeakInterpolationMethod = Parabolic, m_MergePeaks = 1, m_ZeroSuppression = 5,
      m_PixelDistanceTolerance = 0\<rparr>"

definition releaseLine :: build where
  "releaseLine = \<lparr>NDEBUG = True, ImageDimension = 1, epsilon = 1 / 2 ^ 52\<rparr>"

definition lonePeakSurface :: image where
  "lonePeakSurface =
     \<lparr>regionIndex = [0], regionSize = [64], pixels = (\<lambda>ind. if ind = [10] then 5 else 0)\<rparr>"

definition lonePeakInputs :: optimizer_inputs where
  "lonePeakInputs =
     \<lparr>input = Some lonePeakSurface, spacing = [1], fixedOrigin = [0], movingOrigin = [10]\<rparr>"

definition maximaAt :: "int list list \<Rightarrow> max_calculator" where
  "maximaAt inds img n = Inr (map (pixels img) (take n inds), take n inds)"

declare upper_bound_greater.simps [simp del] findNearby.simps [simp del] mergeLoop.simps [simp del]

section \<open>Properties\<close>

subsection \<open>The number of maxima requested\<close>

text \<open>
  Claim C1. With merging enabled the estimator is said to request
  \<open>ceil(requestedOffsetCount / 2) * (3 ^ N - 1)\<close> maxima, a positive number for
  every odd count. For one requested offset in two dimensions with the default
  merge distance 1 that would be 8; the source requests 0, since \<open>1 / 2\<close> is
  already 0 before \<^verbatim>\<open>std::ceil\<close> sees it.
\<close>

theorem requestedMaxima_one_offset:
  "requestedMaxima 1 1 2 = 0 \<and> nat \<lceil>(1::real) / 2\<rceil> * (3 ^ 2 - 1) = (8::nat)"
proof -
  have "\<lceil>(1::real) / 2\<rceil> = 1"
    by linarith
  then show ?thesis
    by (simp add: requestedMaxima_def)
qed

subsection \<open>The biased surface\<close>

lemma fold_add_sum_list:
  "fold (\<lambda>d acc. acc + f d) xs (a::'a::comm_monoid_add) = a + sum_list (map f xs)"
  by (induction xs arbitrary: a) (simp_all add: add.assoc)

lemma sint_word_of_nat_small:
  assumes "n < 2 ^ 63"
  shows "sint (word_of_nat n :: 64 word) = int n"
proof -
  have "int n < 2 ^ 63"
    using assms of_nat_less_iff [of n "2 ^ 63", where ?'a = int] by simp
  then have "signed_take_bit 63 (int n) = int n"
    by (intro signed_take_bit_int_eq_self) simp_all
  then show ?thesis
    using sint_sbintrunc' [of "int n", where ?'a = 64] by simp
qed

lemma biasDistStep_min:
  "biasDistStep inp img ind d dst =
     dst + min ((directExpectedIndex inp img d - ind ! d)\<^sup>2)
               ((mirrorExpectedIndex inp img d - ind ! d)\<^sup>2)"
  by (simp add: biasDistStep_def Let_def min_def power2_eq_square)

lemma biasDist_sum: "biasDist N inp img ind = nearestExpectedDist2 N inp img ind"
proof -
  have "biasDistStep inp img ind =
      (\<lambda>d acc. acc + min ((directExpectedIndex inp img d - ind ! d)\<^sup>2)
               ((mirrorExpectedIndex inp img d - ind ! d)\<^sup>2))"
    by (simp add: biasDistStep_min fun_eq_iff)
  then show ?thesis
    by (simp add: biasDist_def nearestExpectedDist2_def fold_add_sum_list
        interv_sum_list_conv_sum_set_nat atLeast0LessThan)
qed

lemma imageSize2_sum:
  "imageSize2 N img = (\<Sum>d<N. (real_of_int (adjustedSize img d))\<^sup>2)"
  unfolding imageSize2_def
  by (simp add: fold_add_sum_list interv_sum_list_conv_sum_set_nat atLeast0LessThan power2_eq_square)

lemma zeroDist2_exact:
  assumes "100 * (m_PixelDistanceTolerance cfg)\<^sup>2 < 2 ^ 63"
  shows "zeroDist2 cfg = 100 * (int (m_PixelDistanceTolerance cfg))\<^sup>2"
proof -
  define n where "n = 100 * m_PixelDistanceTolerance cfg * m_PixelDistanceTolerance cfg"
  have "n < 2 ^ 63"
    using assms by (simp add: n_def power2_eq_square mult.assoc)
  then have "sint (word_of_nat n :: 64 word) = int n"
    by (rule sint_word_of_nat_small)
  moreover have "zeroDist2 cfg = sint (word_of_nat n :: 64 word)"
    unfolding zeroDist2_def n_def ..
  moreover have "int n = 100 * (int (m_PixelDistanceTolerance cfg))\<^sup>2"
    by (simp add: n_def power2_eq_square mult.assoc)
  ultimately show ?thesis
    by simp
qed

lemma tolerance_square_no_wrap:
  assumes "100 * (t::nat)\<^sup>2 < 2 ^ 63"
  shows "(t * t) mod 2 ^ 64 = t\<^sup>2"
proof -
  have "t\<^sup>2 \<le> 100 * t\<^sup>2"
    by simp
  also have "\<dots> < 2 ^ 63"
    by (rule assms)
  also have "(2::nat) ^ 63 < 2 ^ 64"
    by simp
  finally show ?thesis
    by (simp add: power2_eq_square)
qed

text \<open>
  Claim C2, as amended. Let the tolerance be small enough for \<open>100 * tolerance\<^sup>2\<close>
  to fit the signed 64-bit index type. A sample is set to exactly 0 when the
  tolerance is positive and the sample's squared index distance to the expected
  indices exceeds \<open>100 * tolerance\<^sup>2\<close>; every other sample is the input sample
  damped by the exponential (and scaled by 1000 in a build without \<^verbatim>\<open>NDEBUG\<close>).
\<close>

theorem biasPixel_zero_beyond_hundredfold:
  assumes "100 * (m_PixelDistanceTolerance cfg)\<^sup>2 < 2 ^ 63"
  shows "biasPixel b cfg inp img ind v =
     (if 0 < m_PixelDistanceTolerance cfg
         \<and> 100 * (int (m_PixelDistanceTolerance cfg))\<^sup>2
             < nearestExpectedDist2 (ImageDimension b) inp img ind
      then 0
      else v * exp (distancePenaltyFactor (ImageDimension b) cfg img
                    * real_of_int (nearestExpectedDist2 (ImageDimension b) inp img ind))
             * (if NDEBUG b then 1 else 1000))"
  by (simp add: biasPixel_def Let_def biasDist_sum zeroDist2_exact [OF assms])

theorem biasPixel_zero_beyond_hundredfold_witness:
  "biasPixel \<lparr>NDEBUG = True, ImageDimension = 1, epsilon = 1 / 2 ^ 52\<rparr>
     \<lparr>m_PeakInterpolationMethod = Parabolic, m_MergePeaks = 1, m_ZeroSuppression = 5,
      m_PixelDistanceTolerance = 1\<rparr>
     \<lparr>input = None, spacing = [1], fixedOrigin = [0], movingOrigin = [0]\<rparr>
     \<lparr>regionIndex = [0], regionSize = [100], pixels = (\<lambda>ind. 1)\<rparr> [11] 1 = 0"
  using biasPixel_zero_beyond_hundredfold
    [of "\<lparr>m_PeakInterpolationMethod = Parabolic, m_MergePeaks = 1, m_ZeroSuppression = 5,
      m_PixelDistanceTolerance = 1\<rparr>"
      "\<lparr>NDEBUG = True, ImageDimension = 1, epsilon = 1 / 2 ^ 52\<rparr>"
      "\<lparr>input = None, spacing = [1], fixedOrigin = [0], movingOrigin = [0]\<rparr>"
      "\<lparr>regionIndex = [0], regionSize = [100], pixels = (\<lambda>ind. 1)\<rparr>" "[11]" 1]
  by (simp add: nearestExpectedDist2_def directExpectedIndex_def mirrorExpectedIndex_def
      adjustedSize_def truncToIndex_def)

text \<open>
  The threshold is not \<open>10 * tolerance\<^sup>2\<close>: with tolerance 1, a sample at squared
  distance 49 is beyond \<open>10 * tolerance\<^sup>2\<close> and is not set to 0.
\<close>

theorem biasPixel_tenfold_counterexample:
  "0 < m_PixelDistanceTolerance \<lparr>m_PeakInterpolationMethod = Parabolic, m_MergePeaks = 1,
         m_ZeroSuppression = 5, m_PixelDistanceTolerance = 1\<rparr>
   \<and> biasDist 1 \<lparr>input = None, spacing = [1], fixedOrigin = [0], movingOrigin = [0]\<rparr>
        \<lparr>regionIndex = [0], regionSize = [100], pixels = (\<lambda>ind. 1)\<rparr> [7] = 49
   \<and> 10 * 1\<^sup>2 < (49::int)
   \<and> biasPixel \<lparr>NDEBUG = True, ImageDimension = 1, epsilon = 1 / 2 ^ 52\<rparr>
        \<lparr>m_PeakInterpolationMethod = Parabolic, m_MergePeaks = 1, m_ZeroSuppression = 5,
         m_PixelDistanceTolerance = 1\<rparr>
        \<lparr>input = None, spacing = [1], fixedOrigin = [0], movingOrigin = [0]\<rparr>
        \<lparr>regionIndex = [0], regionSize = [100], pixels = (\<lambda>ind. 1)\<rparr> [7] 1 \<noteq> 0"
  by (simp add: biasPixel_def biasDist_def biasDistStep_def zeroDist2_def
      directExpectedIndex_def mirrorExpectedIndex_def adjustedSize_def truncToIndex_def)


text \<open>
  Claim C7, as amended. Let the tolerance be small enough for \<open>100 * tolerance\<^sup>2\<close>
  to fit the signed 64-bit index type, and let the sum of the squared grid
  extents be nonzero when the tolerance is 0. Every sample that is not set to 0
  is the input sample multiplied by \<open>exp (distancePenaltyFactor * d\<^sup>2)\<close>, and by
  1000 in a build without \<^verbatim>\<open>NDEBUG\<close>. Here \<open>d\<^sup>2\<close> is the sum, over the axes, of
  the squared index distance to the closer of the direct and the mirror expected
  index, and the factor is \<open>- 10\<close> over the sum of the squared grid extents when
  the tolerance is 0 and \<open>ln 0.9 / tolerance\<^sup>2\<close> otherwise.
\<close>

theorem biasPixel_damping_factor:
  assumes "100 * (m_PixelDistanceTolerance cfg)\<^sup>2 < 2 ^ 63"
    and "\<not> (0 < m_PixelDistanceTolerance cfg
            \<and> 100 * (int (m_PixelDistanceTolerance cfg))\<^sup>2
                < nearestExpectedDist2 (ImageDimension b) inp img ind)"
    and "m_PixelDistanceTolerance cfg = 0
         \<Longrightarrow> (\<Sum>d<ImageDimension b. (real_of_int (adjustedSize img d))\<^sup>2) \<noteq> 0"
  shows "biasPixel b cfg inp img ind v =
     v * exp ((if m_PixelDistanceTolerance cfg = 0
               then - 10 / (\<Sum>d<ImageDimension b. (real_of_int (adjustedSize img d))\<^sup>2)
               else ln (9 / 10) / (real (m_PixelDistanceTolerance cfg))\<^sup>2)
              * real_of_int (nearestExpectedDist2 (ImageDimension b) inp img ind))
       * (if NDEBUG b then 1 else 1000)"
proof -
  have "biasDist (ImageDimension b) inp img ind > zeroDist2 cfg
        \<longleftrightarrow> 100 * (int (m_PixelDistanceTolerance cfg))\<^sup>2
              < nearestExpectedDist2 (ImageDimension b) inp img ind"
    by (simp add: biasDist_sum zeroDist2_exact [OF assms(1)])
  with assms(2) have keep:
    "\<not> (m_PixelDistanceTolerance cfg > 0 \<and> biasDist (ImageDimension b) inp img ind > zeroDist2 cfg)"
    by simp
  have factor: "distancePenaltyFactor (ImageDimension b) cfg img =
      (if m_PixelDistanceTolerance cfg = 0
       then - 10 / (\<Sum>d<ImageDimension b. (real_of_int (adjustedSize img d))\<^sup>2)
       else ln (9 / 10) / (real (m_PixelDistanceTolerance cfg))\<^sup>2)"
    unfolding distancePenaltyFactor_def imageSize2_sum tolerance_square_no_wrap [OF assms(1)]
    by simp
  have "biasPixel b cfg inp img ind v =
      (let pixel = v * exp (distancePenaltyFactor (ImageDimension b) cfg img
                            * real_of_int (biasDist (ImageDimension b) inp img ind))
       in if NDEBUG b then pixel else pixel * 1000)"
    unfolding biasPixel_def Let_def using keep by (simp only: if_False)
  then show ?thesis
    by (simp add: factor biasDist_sum Let_def)
qed

theorem biasPixel_damping_factor_witness:
  "biasPixel \<lparr>NDEBUG = True, ImageDimension = 2, epsilon = 1 / 2 ^ 52\<rparr>
     \<lparr>m_PeakInterpolationMethod = Parabolic, m_MergePeaks = 1, m_ZeroSuppression = 5,
      m_PixelDistanceTolerance = 0\<rparr>
     \<lparr>input = None, spacing = [1, 1], fixedOrigin = [0, 0], movingOrigin = [0, 0]\<rparr>
     \<lparr>regionIndex = [0, 0], regionSize = [4, 4], pixels = (\<lambda>ind. 1)\<rparr> [1, 2] 3
   = 3 * exp (- 10 / 32 * 5)"
  using biasPixel_damping_factor
    [where cfg = "\<lparr>m_PeakInterpolationMethod = Parabolic, m_MergePeaks = 1,
        m_ZeroSuppression = 5, m_PixelDistanceTolerance = 0\<rparr>"
      and b = "\<lparr>NDEBUG = True, ImageDimension = 2, epsilon = 1 / 2 ^ 52\<rparr>"
      and inp = "\<lparr>input = None, spacing = [1, 1], fixedOrigin = [0, 0],
        movingOrigin = [0, 0]\<rparr>"
      and ind = "[1, 2]"
      and img = "\<lparr>regionIndex = [0, 0], regionSize = [4, 4], pixels = (\<lambda>ind. 1)\<rparr>"
      and v = 3]
  by (simp add: nearestExpectedDist2_def directExpectedIndex_def mirrorExpectedIndex_def
      adjustedSize_def truncToIndex_def lessThan_Suc numeral_2_eq_2)

text \<open>
  The distance is not the minimum over the axes: on a 4 by 4 grid the sample at
  index \<open>(1, 2)\<close> has per-axis squared distances 1 and 4, and it is damped with
  their sum 5, not with their minimum 1. And in a build without \<^verbatim>\<open>NDEBUG\<close> the
  sample at the expected index, at distance 0, is not the input sample but 1000
  times it.
\<close>

theorem biasPixel_min_over_axes_counterexample:
  "biasPixel \<lparr>NDEBUG = True, ImageDimension = 2, epsilon = 1 / 2 ^ 52\<rparr>
     \<lparr>m_PeakInterpolationMethod = Parabolic, m_MergePeaks = 1, m_ZeroSuppression = 5,
      m_PixelDistanceTolerance = 0\<rparr>
     \<lparr>input = None, spacing = [1, 1], fixedOrigin = [0, 0], movingOrigin = [0, 0]\<rparr>
     \<lparr>regionIndex = [0, 0], regionSize = [4, 4], pixels = (\<lambda>ind. 1)\<rparr> [1, 2] 3
   \<noteq> 3 * exp (distancePenaltyFactor 2
               \<lparr>m_PeakInterpolationMethod = Parabolic, m_MergePeaks = 1, m_ZeroSuppression = 5,
                m_PixelDistanceTolerance = 0\<rparr>
               \<lparr>regionIndex = [0, 0], regionSize = [4, 4], pixels = (\<lambda>ind. 1)\<rparr>
             * real_of_int (minOverAxesDist2 2
                 \<lparr>input = None, spacing = [1, 1], fixedOrigin = [0, 0], movingOrigin = [0, 0]\<rparr>
                 \<lparr>regionIndex = [0, 0], regionSize = [4, 4], pixels = (\<lambda>ind. 1)\<rparr> [1, 2]))
   \<and> biasPixel \<lparr>NDEBUG = False, ImageDimension = 2, epsilon = 1 / 2 ^ 52\<rparr>
     \<lparr>m_PeakInterpolationMethod = Parabolic, m_MergePeaks = 1, m_ZeroSuppression = 5,
      m_PixelDistanceTolerance = 0\<rparr>
     \<lparr>input = None, spacing = [1, 1], fixedOrigin = [0, 0], movingOrigin = [0, 0]\<rparr>
     \<lparr>regionIndex = [0, 0], regionSize = [4, 4], pixels = (\<lambda>ind. 1)\<rparr> [0, 0] 3
   \<noteq> 3 * exp (distancePenaltyFactor 2
               \<lparr>m_PeakInterpolationMethod = Parabolic, m_MergePeaks = 1, m_ZeroSuppression = 5,
                m_PixelDistanceTolerance = 0\<rparr>
               \<lparr>regionIndex = [0, 0], regionSize = [4, 4], pixels = (\<lambda>ind. 1)\<rparr>
             * real_of_int (minOverAxesDist2 2
                 \<lparr>input = None, spacing = [1, 1], fixedOrigin = [0, 0], movingOrigin = [0, 0]\<rparr>
                 \<lparr>regionIndex = [0, 0], regionSize = [4, 4], pixels = (\<lambda>ind. 1)\<rparr> [0, 0]))"
  by (simp add: biasPixel_def biasDist_def biasDistStep_def zeroDist2_def minOverAxesDist2_def
      distancePenaltyFactor_def imageSize2_def
      directExpectedIndex_def mirrorExpectedIndex_def adjustedSize_def truncToIndex_def
      lessThan_Suc numeral_2_eq_2)

subsection \<open>Suppression of the zero solution\<close>

lemma zsDist_sum: "zsDist N img ind = wrapCityBlockDist N img ind"
proof -
  have "zsDistStep img ind =
      (\<lambda>d acc. acc + (if ind ! d - regionIndex img ! d > int (regionSize img ! d div 2)
              then int (regionSize img ! d) - (ind ! d - regionIndex img ! d)
              else ind ! d - regionIndex img ! d))"
    by (simp add: zsDistStep_def Let_def fun_eq_iff)
  then show ?thesis
    by (simp add: zsDist_def wrapCityBlockDist_def fold_add_sum_list
        interv_sum_list_conv_sum_set_nat atLeast0LessThan)
qed

lemma fold_flag_iff:
  "fold (\<lambda>d pv. if P d then True else pv) xs b \<longleftrightarrow> b \<or> (\<exists>d. d \<in> set xs \<and> P d)"
  by (induction xs arbitrary: b) auto

lemma zsZeroIndex_iff:
  "zsZeroIndex N img ind \<longleftrightarrow> (\<exists>d<N. ind ! d = regionIndex img ! d)"
  unfolding zsZeroIndex_def fold_flag_iff by auto

text \<open>
  Claim C8, as amended. With aggressiveness \<open>a > 0\<close> the stage multiplies by
  \<open>(d + 10) / (a + d + 10)\<close> exactly the samples whose wrap-around city-block
  distance \<open>d\<close> to the zero index is strictly less than 4, or which have some
  coordinate equal to that axis's zero value, and leaves every other sample
  unchanged; with \<open>a = 0\<close> the surface is unchanged.
\<close>

theorem zeroSuppress_pixels:
  "pixels (zeroSuppress N cfg img iAdjusted) ind =
     (if 0 < m_ZeroSuppression cfg
         \<and> (wrapCityBlockDist N img ind < 4 \<or> (\<exists>d<N. ind ! d = regionIndex img ! d))
      then pixels iAdjusted ind
           * (real_of_int (wrapCityBlockDist N img ind + 10)
              / (m_ZeroSuppression cfg + real_of_int (wrapCityBlockDist N img ind) + 10))
      else pixels iAdjusted ind)
   \<and> zeroSuppress N (cfg\<lparr>m_ZeroSuppression := 0\<rparr>) img iAdjusted = iAdjusted"
proof -
  have px: "zsPixel N cfg img ind v =
      (if wrapCityBlockDist N img ind < 4 \<or> (\<exists>d<N. ind ! d = regionIndex img ! d)
       then v * (real_of_int (wrapCityBlockDist N img ind + 10)
                 / (m_ZeroSuppression cfg + real_of_int (wrapCityBlockDist N img ind) + 10))
       else v)" for v
    unfolding zsPixel_def Let_def zsDist_sum zsZeroIndex_iff znSize_def by auto
  show ?thesis
    by (auto simp add: zeroSuppress_def px)
qed

text \<open>
  The neighbourhood does not include distance 4: on an 8 by 8 grid the sample at
  \<open>(2, 2)\<close> is at distance 4, has no zero coordinate, and keeps its value.
\<close>

theorem zeroSuppress_distance_four_counterexample:
  "wrapCityBlockDist 2 \<lparr>regionIndex = [0, 0], regionSize = [8, 8], pixels = (\<lambda>ind. 1)\<rparr> [2, 2] = 4
   \<and> pixels (zeroSuppress 2
        \<lparr>m_PeakInterpolationMethod = Parabolic, m_MergePeaks = 1, m_ZeroSuppression = 5,
         m_PixelDistanceTolerance = 0\<rparr>
        \<lparr>regionIndex = [0, 0], regionSize = [8, 8], pixels = (\<lambda>ind. 1)\<rparr>
        \<lparr>regionIndex = [0, 0], regionSize = [8, 8], pixels = (\<lambda>ind. 1)\<rparr>) [2, 2]
     = 1
   \<and> (1::real) * ((4 + 10) / (5 + 4 + 10)) \<noteq> 1"
  by (simp add: zeroSuppress_def zsPixel_def zsDist_def zsDistStep_def zsZeroIndex_def znSize_def
      wrapCityBlockDist_def lessThan_nat_numeral lessThan_Suc Let_def upt_rec)

subsection \<open>The candidate lists stay parallel\<close>

lemma dropFromZeroBound_lengths:
  "length (fst ci) = length (snd ci) \<Longrightarrow>
   length (fst (dropFromZeroBound ci)) = length (snd (dropFromZeroBound ci))"
  by (simp add: dropFromZeroBound_def Let_def)

lemma mergeLoop_lengths:
  "length confs = length indices \<Longrightarrow>
   length (fst (mergeLoop N sz mp i (confs, indices))) =
   length (snd (mergeLoop N sz mp i (confs, indices)))"
proof (induction N sz mp i "(confs, indices)" arbitrary: confs indices rule: mergeLoop.induct)
  case (1 N sz mp i confs indices)
  show ?case
  proof (cases "i < length indices")
    case False
    then show ?thesis
      using "1.prems" by (simp add: mergeLoop.simps)
  next
    case True
    let ?k = "findNearby N sz mp indices i 0"
    show ?thesis
    proof (cases "?k < i")
      case near: True
      have "length (erase i (confs[?k := confs ! ?k + confs ! i])) = length (erase i indices)"
        using "1.prems" by (simp add: erase_def)
      then have "length (fst (mergeLoop N sz mp i
            (erase i (confs[?k := confs ! ?k + confs ! i]), erase i indices))) =
          length (snd (mergeLoop N sz mp i
            (erase i (confs[?k := confs ! ?k + confs ! i]), erase i indices)))"
        using True near by (intro "1.hyps"(1)) simp_all
      then show ?thesis
        using True near by (subst (1 2) mergeLoop.simps) (simp add: Let_def)
    next
      case far: False
      have "length (fst (mergeLoop N sz mp (Suc i) (confs, indices))) =
          length (snd (mergeLoop N sz mp (Suc i) (confs, indices)))"
        using True far "1.prems" by (intro "1.hyps"(2)) simp_all
      then show ?thesis
        using True far by (subst (1 2) mergeLoop.simps) (simp add: Let_def)
    qed
  qed
qed

lemma mergePeaks_lengths:
  assumes "length (fst ci) = length (snd ci)"
  shows "length (fst (mergePeaks N cfg img ci)) = length (snd (mergePeaks N cfg img ci))"
proof (cases "m_MergePeaks cfg > 0")
  case True
  then show ?thesis
    by (simp add: mergePeaks_def resort_def Let_def)
next
  case False
  then show ?thesis
    using assms by (simp add: mergePeaks_def)
qed

lemma retainedPeaks_lengths:
  assumes "length (fst ci) = length (snd ci)"
  shows "length (fst (retainedPeaks N cfg img n ci)) = length (snd (retainedPeaks N cfg img n ci))"
  using mergePeaks_lengths [OF dropFromZeroBound_lengths [OF assms], of N cfg img]
  by (simp add: retainedPeaks_def Let_def)

lemma truncateToCount_eq:
  assumes "length (m_Confidences st) = length indices"
  shows "truncateToCount N st indices =
         (\<lparr>m_Offsets = resize (min (length (m_Offsets st)) (length indices))
                              (replicate N (Fin 0)) (m_Offsets st),
           m_Confidences = take (length (m_Offsets st)) (m_Confidences st)\<rparr>,
          take (length (m_Offsets st)) indices)"
  using assms
  by (cases "length (m_Offsets st) > length indices")
     (simp_all add: truncateToCount_def SetOffsetCount_def resize_def min_def)

subsection \<open>The binary search on a descending list\<close>

lemma upper_bound_greater_partition:
  "sorted_wrt (\<ge>) xs \<Longrightarrow> first + len \<le> length xs \<Longrightarrow>
     (\<forall>i<first. v \<le> xs ! i) \<Longrightarrow>
     (\<forall>i. first + len \<le> i \<and> i < length xs \<longrightarrow> xs ! i < v) \<Longrightarrow>
     upper_bound_greater xs v first len \<le> length xs
     \<and> (\<forall>i<upper_bound_greater xs v first len. v \<le> xs ! i)
     \<and> (\<forall>i. upper_bound_greater xs v first len \<le> i \<and> i < length xs \<longrightarrow> xs ! i < v)"
proof (induction xs v first len rule: upper_bound_greater.induct)
  case (1 xs v first len)
  note assms = "1.prems"(1)
  note bounds = "1.prems"(2-4)
  show ?case
  proof (cases "0 < len")
    case False
    then show ?thesis
      using bounds by (simp add: upper_bound_greater.simps)
  next
    case True
    define half where "half = len div 2"
    define middle where "middle = first + half"
    have mid: "middle < length xs" and half: "half < len"
      using True bounds(1) by (simp_all add: middle_def half_def)
    show ?thesis
    proof (cases "v > xs ! middle")
      case below: True
      have later: "xs ! i < v" if "first + half \<le> i" "i < length xs" for i
      proof (cases "i = middle")
        case True
        with below show ?thesis by simp
      next
        case False
        with that have "middle < i"
          by (simp add: middle_def)
        then have "xs ! i \<le> xs ! middle"
          using sorted_wrt_nth_less [OF assms _ that(2), of middle] by simp
        with below show ?thesis by simp
      qed
      have "upper_bound_greater xs v first half \<le> length xs
          \<and> (\<forall>i<upper_bound_greater xs v first half. v \<le> xs ! i)
          \<and> (\<forall>i. upper_bound_greater xs v first half \<le> i \<and> i < length xs \<longrightarrow> xs ! i < v)"
        using True below half bounds later
        by (intro "1.IH"(1) [OF True half_def middle_def _ assms]) (simp_all add: middle_def)
      moreover have "upper_bound_greater xs v first len = upper_bound_greater xs v first half"
        using True below
        by (subst upper_bound_greater.simps) (simp add: Let_def half_def middle_def)
      ultimately show ?thesis
        by simp
    next
      case above: False
      have earlier: "v \<le> xs ! i" if "i < middle + 1" for i
      proof (cases "i = middle")
        case True
        with above show ?thesis by simp
      next
        case False
        with that have "i < middle"
          by simp
        then have "xs ! middle \<le> xs ! i"
          using sorted_wrt_nth_less [OF assms _ mid, of i] by simp
        with above show ?thesis by simp
      qed
      have "upper_bound_greater xs v (middle + 1) (len - half - 1) \<le> length xs
          \<and> (\<forall>i<upper_bound_greater xs v (middle + 1) (len - half - 1). v \<le> xs ! i)
          \<and> (\<forall>i. upper_bound_greater xs v (middle + 1) (len - half - 1) \<le> i \<and> i < length xs
                \<longrightarrow> xs ! i < v)"
        using True above half bounds earlier
        by (intro "1.IH"(2) [OF True half_def middle_def _ assms]) (simp_all add: middle_def)
      moreover have "upper_bound_greater xs v first len
          = upper_bound_greater xs v (middle + 1) (len - half - 1)"
        using True above
        by (subst upper_bound_greater.simps) (simp add: Let_def half_def middle_def)
      ultimately show ?thesis
        by simp
    qed
  qed
qed

lemma zeroBound_sorted:
  assumes "sorted_wrt (\<ge>) confs"
  shows "take (zeroBound confs) confs = takeWhile (\<lambda>c. 0 \<le> c) confs"
    and "zeroBound confs \<le> length confs"
proof -
  have part: "zeroBound confs \<le> length confs
     \<and> (\<forall>i<zeroBound confs. 0 \<le> confs ! i)
     \<and> (\<forall>i. zeroBound confs \<le> i \<and> i < length confs \<longrightarrow> confs ! i < 0)"
    unfolding zeroBound_def
    by (rule upper_bound_greater_partition [OF assms]) simp_all
  then show "zeroBound confs \<le> length confs"
    by simp
  have "takeWhile (\<lambda>c. 0 \<le> c) confs = take (zeroBound confs) confs"
    using part by (intro takeWhile_eq_take_P_nth) (auto simp: not_le)
  then show "take (zeroBound confs) confs = takeWhile (\<lambda>c. 0 \<le> c) confs"
    by simp
qed

lemma dropFromZeroBound_no_zero:
  assumes "length (fst ci) = length (snd ci)" and "sorted_wrt (\<ge>) (fst ci)"
    and "0 \<notin> set (fst ci)"
  shows "dropFromZeroBound ci = dropFromFirstNonPositive ci"
proof -
  have same: "takeWhile (\<lambda>c. 0 \<le> c) (fst ci) = takeWhile (\<lambda>c. 0 < c) (fst ci)"
    using assms(3) by (intro takeWhile_cong) (auto simp: less_le)
  have "length (take (zeroBound (fst ci)) (fst ci)) = length (takeWhile (\<lambda>c. 0 < c) (fst ci))"
    by (simp only: zeroBound_sorted(1) [OF assms(2)] same)
  then have i: "zeroBound (fst ci) = length (takeWhile (\<lambda>c. 0 < c) (fst ci))"
    using zeroBound_sorted(2) [OF assms(2)] by simp
  show ?thesis
  proof (cases "zeroBound (fst ci) = length (fst ci)")
    case True
    then show ?thesis
      using assms(1) i by (cases ci) (simp add: dropFromZeroBound_def dropFromFirstNonPositive_def)
  next
    case False
    then show ?thesis
      using i by (simp add: dropFromZeroBound_def dropFromFirstNonPositive_def Let_def)
  qed
qed

subsection \<open>The loops over axes and peaks in closed form\<close>

lemma truncToIndex_of_int [simp]: "truncToIndex (real_of_int k) = k"
  by (simp add: truncToIndex_def)

lemma fold_update_nth:
  "j < length off \<Longrightarrow>
   fold (\<lambda>i acc. acc[i := f i]) xs off ! j = (if j \<in> set xs then f j else off ! j)"
  by (induction xs arbitrary: off) (auto simp: nth_list_update)

lemma fold_update_length: "length (fold (\<lambda>i acc. acc[i := f i]) xs off) = length off"
  by (induction xs arbitrary: off) auto

lemma fold_update_all:
  assumes "length offs = n"
  shows "fold (\<lambda>m acc. acc[m := f m]) [0..<n] offs = map f [0..<n]"
  using assms by (intro nth_equalityI) (simp_all add: fold_update_length fold_update_nth)

lemma resize_length: "length (resize n x xs) = n"
  by (simp add: resize_def)

lemma resolveOffset_eq_map:
  assumes "length offset = N"
  shows "resolveOffset N inp img maxIndex offset =
         map (\<lambda>i. resolveAxis inp img i (maxIndex ! i)) [0..<N]"
  using assms
  by (intro nth_equalityI) (simp_all add: resolveOffset_def fold_update_length fold_update_nth)

lemma interpolateAxis_step:
  assumes "mx ! i = Fin (real_of_int (ind ! i))"
  shows "interpolateAxis b cfg img iAdjusted m y1 i (ind, mx) =
         (ind, mx[i := refinedAxis b cfg img iAdjusted m y1 ind i])"
proof -
  have lo: "xtrunc (xsub (mx ! i) (Fin 1)) = ind ! i - 1"
    using truncToIndex_of_int [of "ind ! i - 1"] by (simp add: assms xsub_def)
  have hi: "xtrunc (xadd (mx ! i) (Fin 1)) = ind ! i + 1"
    using truncToIndex_of_int [of "ind ! i + 1"] by (simp add: assms)
  have mid: "xtrunc (mx ! i) = ind ! i"
    by (simp add: assms)
  have same: "mx[i := Fin (real_of_int (ind ! i))] = mx"
    using assms list_update_id [of mx i] by simp
  show ?thesis
    unfolding interpolateAxis_def Let_def fst_conv snd_conv lo hi mid refinedAxis_def
    by (simp add: same assms split: PeakInterpolationMethod.split)
qed

lemma interpolateAxes_fold:
  assumes "distinct ds" and "\<forall>d\<in>set ds. mx ! d = Fin (real_of_int (ind ! d))"
    and "length mx = length ind"
  shows "fold (interpolateAxis b cfg img iAdjusted m y1) ds (ind, mx) =
         (ind, map (\<lambda>j. if j \<in> set ds then refinedAxis b cfg img iAdjusted m y1 ind j else mx ! j)
                   [0..<length ind])"
  using assms
proof (induction ds arbitrary: mx)
  case Nil
  have "map ((!) mx) [0..<length mx] = mx"
    by (rule map_nth)
  with Nil.prems(3) show ?case
    by simp
next
  case (Cons d ds)
  let ?mx = "mx[d := refinedAxis b cfg img iAdjusted m y1 ind d]"
  have step: "interpolateAxis b cfg img iAdjusted m y1 d (ind, mx) = (ind, ?mx)"
    using Cons.prems(2) by (intro interpolateAxis_step) simp
  have rest: "\<forall>e\<in>set ds. ?mx ! e = Fin (real_of_int (ind ! e))"
  proof
    fix e assume e: "e \<in> set ds"
    with Cons.prems(1) have "d \<noteq> e"
      by auto
    then have "?mx ! e = mx ! e"
      by (rule nth_list_update_neq)
    with e Cons.prems(2) show "?mx ! e = Fin (real_of_int (ind ! e))"
      by simp
  qed
  have dist: "distinct ds" and len: "length ?mx = length ind"
    using Cons.prems by simp_all
  have "fold (interpolateAxis b cfg img iAdjusted m y1) ds (ind, ?mx) =
      (ind, map (\<lambda>j. if j \<in> set ds then refinedAxis b cfg img iAdjusted m y1 ind j else ?mx ! j)
                [0..<length ind])"
    by (rule Cons.IH [OF dist rest len])
  moreover have "map (\<lambda>j. if j \<in> set ds then refinedAxis b cfg img iAdjusted m y1 ind j else ?mx ! j)
                [0..<length ind]
      = map (\<lambda>j. if j \<in> set (d # ds) then refinedAxis b cfg img iAdjusted m y1 ind j else mx ! j)
                [0..<length ind]"
    using Cons.prems(1,3) by (auto simp: nth_list_update)
  ultimately show ?case
    by (simp add: step)
qed

lemma interpolatePeak_closed:
  assumes "length ind = ImageDimension b"
  shows "interpolatePeak b cfg img iAdjusted m y1 ind =
         map (\<lambda>i. if m_PeakInterpolationMethod cfg \<noteq> PIM_None
                   then refinedAxis b cfg img iAdjusted m y1 ind i
                   else Fin (real_of_int (ind ! i))) [0..<ImageDimension b]"
proof (cases "m_PeakInterpolationMethod cfg = PIM_None")
  case True
  then show ?thesis
    using assms by (simp add: interpolatePeak_def list_eq_iff_nth_eq)
next
  case False
  have "fold (interpolateAxis b cfg img iAdjusted m y1) [0..<length ind]
          (ind, map (\<lambda>k. Fin (real_of_int k)) ind) =
        (ind, map (\<lambda>j. if j \<in> set [0..<length ind]
                        then refinedAxis b cfg img iAdjusted m y1 ind j
                        else map (\<lambda>k. Fin (real_of_int k)) ind ! j) [0..<length ind])"
    by (rule interpolateAxes_fold) simp_all
  then show ?thesis
    using False assms by (simp add: interpolatePeak_def cong: map_cong)
qed

lemma xadd_infOfSign: "xadd (Fin k) (infOfSign s) = infOfSign s"
  by (simp add: infOfSign_def)

lemma parabolicStep_closed:
  "parabolicStep y0 y1 y2 (Fin k) =
     (if 2 * (y0 - 2 * y1 + y2) \<noteq> 0
      then Fin (k + (y0 - y2) / (2 * (y0 - 2 * y1 + y2)))
      else if y2 < y0 then PInf else if y0 < y2 then MInf else NaN)"
  by (auto simp add: parabolicStep_def infOfSign_def sgn_real_def)

lemma peakStep_eq:
  assumes "length (fst os) = ImageDimension b"
  shows "peakStep b cfg inp img iAdjusted indices m os =
     (peakOffset b cfg inp img iAdjusted m (m_Confidences (snd os) ! m) (indices ! m),
      \<lparr>m_Offsets = (m_Offsets (snd os))
           [m := peakOffset b cfg inp img iAdjusted m (m_Confidences (snd os) ! m) (indices ! m)],
       m_Confidences = (if NDEBUG b
                        then (m_Confidences (snd os))[m := m_Confidences (snd os) ! m * 1000]
                        else m_Confidences (snd os))\<rparr>)"
  unfolding peakStep_def Let_def peakOffset_def
  by (simp add: resolveOffset_eq_map [OF assms])

lemma peakOffset_length: "length (peakOffset b cfg inp img iAdjusted m y1 ind) = ImageDimension b"
  by (simp add: peakOffset_def)

lemma peak_loop_invariant:
  assumes "length off0 = ImageDimension b"
  shows "k \<le> length (m_Confidences st) \<Longrightarrow>
     length (fst (fold (peakStep b cfg inp img iAdjusted indices) [0..<k] (off0, st)))
       = ImageDimension b
     \<and> m_Confidences (snd (fold (peakStep b cfg inp img iAdjusted indices) [0..<k] (off0, st)))
       = map (scaleConfidence b) (take k (m_Confidences st)) @ drop k (m_Confidences st)
     \<and> m_Offsets (snd (fold (peakStep b cfg inp img iAdjusted indices) [0..<k] (off0, st)))
       = fold (\<lambda>m offs. offs[m := peakOffset b cfg inp img iAdjusted m (m_Confidences st ! m)
                                        (indices ! m)]) [0..<k] (m_Offsets st)"
proof (induction k)
  case 0
  then show ?case
    using assms by simp
next
  case (Suc k)
  let ?os = "fold (peakStep b cfg inp img iAdjusted indices) [0..<k] (off0, st)"
  have k: "k < length (m_Confidences st)"
    using Suc.prems by simp
  from Suc.IH have len: "length (fst ?os) = ImageDimension b"
    and conf: "m_Confidences (snd ?os)
       = map (scaleConfidence b) (take k (m_Confidences st)) @ drop k (m_Confidences st)"
    and offs: "m_Offsets (snd ?os)
       = fold (\<lambda>m offs. offs[m := peakOffset b cfg inp img iAdjusted m (m_Confidences st ! m)
                                        (indices ! m)]) [0..<k] (m_Offsets st)"
    using k by simp_all
  have at_k: "m_Confidences (snd ?os) ! k = m_Confidences st ! k"
    using k by (simp add: conf nth_append)
  have upd: "(m_Confidences (snd ?os))[k := c]
      = map (scaleConfidence b) (take k (m_Confidences st)) @ c # drop (Suc k) (m_Confidences st)" for c
    using k by (simp add: conf list_update_append Cons_nth_drop_Suc [symmetric])
  have next_conf: "map (scaleConfidence b) (take (Suc k) (m_Confidences st))
        @ drop (Suc k) (m_Confidences st)
      = map (scaleConfidence b) (take k (m_Confidences st))
        @ scaleConfidence b (m_Confidences st ! k) # drop (Suc k) (m_Confidences st)"
    using k by (simp add: take_Suc_conv_app_nth)
  have same: "map (scaleConfidence b) (take k (m_Confidences st)) @ drop k (m_Confidences st)
      = map (scaleConfidence b) (take k (m_Confidences st))
        @ m_Confidences st ! k # drop (Suc k) (m_Confidences st)"
    using k by (simp add: Cons_nth_drop_Suc)
  have "fold (peakStep b cfg inp img iAdjusted indices) [0..<Suc k] (off0, st)
      = peakStep b cfg inp img iAdjusted indices k ?os"
    by simp
  also have "\<dots> =
     (peakOffset b cfg inp img iAdjusted k (m_Confidences st ! k) (indices ! k),
      \<lparr>m_Offsets = (m_Offsets (snd ?os))
           [k := peakOffset b cfg inp img iAdjusted k (m_Confidences st ! k) (indices ! k)],
       m_Confidences = (if NDEBUG b
                        then (m_Confidences (snd ?os))[k := m_Confidences st ! k * 1000]
                        else m_Confidences (snd ?os))\<rparr>)"
    by (simp add: peakStep_eq [OF len] at_k)
  finally have step: "fold (peakStep b cfg inp img iAdjusted indices) [0..<Suc k] (off0, st) =
     (peakOffset b cfg inp img iAdjusted k (m_Confidences st ! k) (indices ! k),
      \<lparr>m_Offsets = (m_Offsets (snd ?os))
           [k := peakOffset b cfg inp img iAdjusted k (m_Confidences st ! k) (indices ! k)],
       m_Confidences = (if NDEBUG b
                        then (m_Confidences (snd ?os))[k := m_Confidences st ! k * 1000]
                        else m_Confidences (snd ?os))\<rparr>)" .
  have conf_next: "(if NDEBUG b
        then (m_Confidences (snd ?os))[k := m_Confidences st ! k * 1000]
        else m_Confidences (snd ?os))
      = map (scaleConfidence b) (take (Suc k) (m_Confidences st))
        @ drop (Suc k) (m_Confidences st)"
  proof (cases "NDEBUG b")
    case True
    then have "scaleConfidence b (m_Confidences st ! k) = m_Confidences st ! k * 1000"
      by (simp add: scaleConfidence_def)
    with True show ?thesis
      unfolding next_conf by (simp only: upd if_True)
  next
    case False
    then have "scaleConfidence b (m_Confidences st ! k) = m_Confidences st ! k"
      by (simp add: scaleConfidence_def)
    with False show ?thesis
      unfolding next_conf by (simp only: conf same if_False)
  qed
  show ?case
    unfolding step
    by (simp add: peakOffset_length conf_next offs del: take_Suc_conv_app_nth)
qed

lemma afterMaxima_result:
  assumes "length (fst ci) = length (snd ci)"
  shows "afterMaxima b cfg inp img iAdjusted ci st =
     \<lparr>m_Offsets =
        map (\<lambda>m. peakOffset b cfg inp img iAdjusted m
                    (fst (retainedPeaks (ImageDimension b) cfg img (length (m_Offsets st)) ci) ! m)
                    (snd (retainedPeaks (ImageDimension b) cfg img (length (m_Offsets st)) ci) ! m))
            [0..<length (fst (retainedPeaks (ImageDimension b) cfg img (length (m_Offsets st)) ci))],
      m_Confidences =
        map (scaleConfidence b)
            (fst (retainedPeaks (ImageDimension b) cfg img (length (m_Offsets st)) ci))\<rparr>"
proof -
  define mc where "mc = mergePeaks (ImageDimension b) cfg img (dropFromZeroBound ci)"
  define n where "n = length (m_Offsets st)"
  define c where "c = take n (fst mc)"
  define ix where "ix = take n (snd mc)"
  define st1 where "st1 = \<lparr>m_Offsets = resize (min n (length (snd mc)))
                              (replicate (ImageDimension b) (Fin 0)) (m_Offsets st),
                            m_Confidences = c\<rparr>"
  have lens: "length (fst mc) = length (snd mc)"
    unfolding mc_def by (intro mergePeaks_lengths dropFromZeroBound_lengths assms)
  have retained: "retainedPeaks (ImageDimension b) cfg img n ci = (c, ix)"
    by (simp add: retainedPeaks_def Let_def mc_def c_def ix_def)
  have trunc: "truncateToCount (ImageDimension b) (st\<lparr>m_Confidences := fst mc\<rparr>) (snd mc)
      = (st1, ix)"
    using lens by (simp add: truncateToCount_eq st1_def n_def c_def ix_def)
  have c1: "m_Confidences st1 = c"
    by (simp add: st1_def)
  have lenc: "length c = min n (length (snd mc))"
    using lens by (simp add: c_def min.commute)
  have o1: "length (m_Offsets st1) = length c"
    by (simp add: st1_def resize_length lenc)
  let ?final = "fold (peakStep b cfg inp img iAdjusted ix) [0..<length c]
                  (replicate (ImageDimension b) (Fin 0), st1)"
  have after: "afterMaxima b cfg inp img iAdjusted ci st = snd ?final"
    unfolding afterMaxima_def Let_def mc_def [symmetric] trunc by (simp add: c1)
  have inv: "m_Confidences (snd ?final) = map (scaleConfidence b) c"
    and inv2: "m_Offsets (snd ?final)
       = fold (\<lambda>m offs. offs[m := peakOffset b cfg inp img iAdjusted m (c ! m) (ix ! m)])
              [0..<length c] (m_Offsets st1)"
    using peak_loop_invariant [of "replicate (ImageDimension b) (Fin 0)" b
        "length c" st1 cfg inp img iAdjusted ix]
    by (simp_all add: c1)
  have offs: "fold (\<lambda>m offs. offs[m := peakOffset b cfg inp img iAdjusted m (c ! m) (ix ! m)])
                [0..<length c] (m_Offsets st1)
      = map (\<lambda>m. peakOffset b cfg inp img iAdjusted m (c ! m) (ix ! m)) [0..<length c]"
    using o1 by (rule fold_update_all)
  have "afterMaxima b cfg inp img iAdjusted ci st =
      \<lparr>m_Offsets = map (\<lambda>m. peakOffset b cfg inp img iAdjusted m (c ! m) (ix ! m)) [0..<length c],
       m_Confidences = map (scaleConfidence b) c\<rparr>"
    unfolding after
    by (rule optimizer_state.equality) (simp_all add: inv inv2 offs)
  then show ?thesis
    using retained by (simp add: n_def)
qed

lemma afterMaxima_offset_component:
  assumes "length (fst ci) = length (snd ci)"
    and "retainedPeaks (ImageDimension b) cfg img (length (m_Offsets st)) ci = (c, ix)"
    and "m < length c" and "i < ImageDimension b"
  shows "m_Offsets (afterMaxima b cfg inp img iAdjusted ci st) ! m ! i =
         resolveAxis inp img i (interpolatePeak b cfg img iAdjusted m (c ! m) (ix ! m) ! i)"
  using assms(3,4) by (simp add: afterMaxima_result [OF assms(1)] assms(2) peakOffset_def)

subsection \<open>The sample run\<close>

lemma example_fields:
  "NDEBUG releaseLine" "ImageDimension releaseLine = Suc 0"
  "m_PeakInterpolationMethod defaultConfig = Parabolic" "m_MergePeaks defaultConfig = Suc 0"
  "m_ZeroSuppression defaultConfig = 5" "m_PixelDistanceTolerance defaultConfig = 0"
  "regionIndex lonePeakSurface = [0]" "regionSize lonePeakSurface = [64]"
  "pixels lonePeakSurface ind = (if ind = [10] then 5 else 0)"
  "input lonePeakInputs = Some lonePeakSurface" "spacing lonePeakInputs = [1]"
  "fixedOrigin lonePeakInputs = [0]" "movingOrigin lonePeakInputs = [10]"
  by (simp_all add: releaseLine_def defaultConfig_def lonePeakSurface_def lonePeakInputs_def)

lemma lonePeak_adjusted:
  "pixels (adjustedSurface releaseLine defaultConfig lonePeakInputs lonePeakSurface) ind =
     (if ind = [10] then 5 else 0)"
proof (cases "ind = [10]")
  case True
  then show ?thesis
    by (simp add: adjustedSurface_def zeroSuppress_def zsPixel_def zsDist_def zsDistStep_def
        zsZeroIndex_def znSize_def biasField_def biasPixel_def biasDist_def biasDistStep_def
        directExpectedIndex_def mirrorExpectedIndex_def adjustedSize_def truncToIndex_def
        example_fields Let_def)
next
  case False
  then show ?thesis
    by (simp add: adjustedSurface_def zeroSuppress_def zsPixel_def biasField_def biasPixel_def
        example_fields Let_def)
qed

lemma lonePeak_retained:
  assumes "m_MergePeaks cfg = Suc 0" and "regionSize img = [64]"
  shows "retainedPeaks (Suc 0) cfg img (Suc (Suc 0)) ([5, 0], [[10], [20]])
         = ([5, 0], [[10], [20]])"
  using assms
  by (simp add: retainedPeaks_def dropFromZeroBound_def zeroBound_def upper_bound_greater.simps
      mergePeaks_def mergeLoop.simps findNearby.simps peakDist_def axisWrapDist_def erase_def
      resort_def Let_def)

lemma retainedPeaks_single:
  "0 \<le> v \<Longrightarrow> 0 < n \<Longrightarrow> retainedPeaks N cfg img n ([v], [ind]) = ([v], [ind])"
  by (simp add: retainedPeaks_def dropFromZeroBound_def zeroBound_def upper_bound_greater.simps
      mergePeaks_def mergeLoop.simps resort_def Let_def)

lemma retainedPeaks_merged_pair:
  "0 < n \<Longrightarrow> m_MergePeaks cfg = Suc 0 \<Longrightarrow>
   retainedPeaks (Suc 0) cfg \<lparr>regionIndex = [0], regionSize = [16], pixels = px\<rparr> n
     ([5, 4], [[5], [6]])
   = ([9], [[5]])"
  by (simp add: retainedPeaks_def dropFromZeroBound_def zeroBound_def upper_bound_greater.simps
      mergePeaks_def mergeLoop.simps findNearby.simps peakDist_def axisWrapDist_def erase_def
      resort_def Let_def)

lemma lonePeak_zero_run:
  "ComputeOffset releaseLine defaultConfig (maximaAt [[10], [20]]) lonePeakInputs
     \<lparr>m_Offsets = [[Fin 0], [Fin 0]], m_Confidences = []\<rparr>
   = Inr \<lparr>m_Offsets = [[Fin 0], [NaN]], m_Confidences = [5000, 0]\<rparr>"
proof -
  let ?adj = "adjustedSurface releaseLine defaultConfig lonePeakInputs lonePeakSurface"
  let ?st = "\<lparr>m_Offsets = [[Fin 0], [Fin 0]], m_Confidences = []\<rparr>"
  have n: "requestedMaxima (Suc 0) (Suc (Suc 0)) (Suc 0) = 2"
    by (simp add: requestedMaxima_def)
  have maxima: "maximaAt [[10], [20]] ?adj 2 = Inr ([5, 0], [[10], [20]])"
    by (simp add: maximaAt_def lonePeak_adjusted)
  have run: "ComputeOffset releaseLine defaultConfig (maximaAt [[10], [20]]) lonePeakInputs ?st
     = Inr (afterMaxima releaseLine defaultConfig lonePeakInputs lonePeakSurface ?adj
              ([5, 0], [[10], [20]]) ?st)"
    by (simp add: ComputeOffset_def Let_def example_fields n maxima)
  have first: "peakOffset releaseLine defaultConfig lonePeakInputs lonePeakSurface ?adj 0 5 [10]
      = [Fin 0]"
    by (simp add: peakOffset_def interpolatePeak_closed refinedAxis_def IsInside_def
        parabolicStep_closed lonePeak_adjusted resolveAxis_def directOffset_def mirrorOffset_def
        adjustedSize_def xsub_def xle_def example_fields)
  have second: "peakOffset releaseLine defaultConfig lonePeakInputs lonePeakSurface ?adj
        (Suc 0) 0 [20] = [NaN]"
    by (simp add: peakOffset_def interpolatePeak_closed refinedAxis_def IsInside_def
        parabolicStep_closed lonePeak_adjusted resolveAxis_def directOffset_def mirrorOffset_def
        adjustedSize_def xsub_def xle_def example_fields)
  have "afterMaxima releaseLine defaultConfig lonePeakInputs lonePeakSurface ?adj
          ([5, 0], [[10], [20]]) ?st
      = \<lparr>m_Offsets = [[Fin 0], [NaN]], m_Confidences = [5000, 0]\<rparr>"
    by (simp add: afterMaxima_result lonePeak_retained example_fields first second
        scaleConfidence_def)
  then show ?thesis
    by (simp add: run)
qed

subsection \<open>The candidates kept and the number of offsets returned\<close>

text \<open>
  Claim C3. The Candidate Selector is said to drop every candidate from the
  first confidence \<open>\<le> 0\<close> onward, so that every returned confidence is strictly
  positive. On the sample line the calculator reports the maxima 5 and 0: the
  source's \<^verbatim>\<open>std::upper_bound\<close> with \<^verbatim>\<open>std::greater\<close> finds the first confidence
  below 0, so the candidate of confidence 0 is kept, and the returned
  confidences are 5000 and 0. The cut of the text would keep the first only.
\<close>

theorem zero_confidence_is_retained:
  "ComputeOffset releaseLine defaultConfig (maximaAt [[10], [20]]) lonePeakInputs
     \<lparr>m_Offsets = [[Fin 0], [Fin 0]], m_Confidences = []\<rparr>
   = Inr \<lparr>m_Offsets = [[Fin 0], [NaN]], m_Confidences = [5000, 0]\<rparr>
   \<and> dropFromZeroBound ([5, 0], [[10], [20]]) = ([5, 0], [[10], [20]])
   \<and> dropFromFirstNonPositive ([5, 0], [[10], [20]]) = ([5], [[10]])"
proof -
  have "dropFromZeroBound ([5, 0], [[10], [20]]) = ([5, 0], [[10], [20]])"
    by (simp add: dropFromZeroBound_def zeroBound_def upper_bound_greater.simps Let_def)
  moreover have "dropFromFirstNonPositive ([5, 0], [[10], [20]]) = ([5], [[10]])"
    by (simp add: dropFromFirstNonPositive_def)
  ultimately show ?thesis
    by (simp add: lonePeak_zero_run)
qed

text \<open>
  Claim C5, as amended. Let a Correlation Surface be supplied, and let the
  calculator return lists of equal length whose maxima are sorted descending and
  none of which is exactly 0. Then the computation succeeds, the number of
  returned offsets is the minimum of the requested count and the number of
  positive-confidence merged candidates, it never exceeds the requested count,
  and the returned confidence list has the length of the returned offset list.
\<close>

theorem returned_count:
  assumes "input inp = Some img"
    and "maxCalculator (adjustedSurface b cfg inp img)
           (requestedMaxima (m_MergePeaks cfg) (length (m_Offsets st)) (ImageDimension b))
         = Inr ci"
    and "length (fst ci) = length (snd ci)"
    and "sorted_wrt (\<ge>) (fst ci)" and "0 \<notin> set (fst ci)"
  shows "\<exists>st'. ComputeOffset b cfg maxCalculator inp st = Inr st'
     \<and> length (m_Offsets st')
         = min (length (m_Offsets st))
               (length (fst (mergePeaks (ImageDimension b) cfg img (dropFromFirstNonPositive ci))))
     \<and> length (m_Offsets st') \<le> length (m_Offsets st)
     \<and> length (m_Confidences st') = length (m_Offsets st')"
proof -
  let ?st' = "afterMaxima b cfg inp img (adjustedSurface b cfg inp img) ci st"
  have run: "ComputeOffset b cfg maxCalculator inp st = Inr ?st'"
    using assms(1-3) by (simp add: ComputeOffset_def Let_def)
  have cut: "dropFromZeroBound ci = dropFromFirstNonPositive ci"
    by (rule dropFromZeroBound_no_zero [OF assms(3-5)])
  have "length (m_Offsets ?st')
      = min (length (m_Offsets st))
            (length (fst (mergePeaks (ImageDimension b) cfg img (dropFromFirstNonPositive ci))))"
    by (simp add: afterMaxima_result [OF assms(3)] retainedPeaks_def Let_def cut min.commute)
  moreover have "length (m_Confidences ?st') = length (m_Offsets ?st')"
    by (simp add: afterMaxima_result [OF assms(3)])
  ultimately show ?thesis
    using run by simp
qed

theorem returned_count_witness:
  "\<exists>st'. ComputeOffset releaseLine defaultConfig (maximaAt [[10]]) lonePeakInputs
            \<lparr>m_Offsets = [[Fin 0], [Fin 0]], m_Confidences = []\<rparr> = Inr st'
     \<and> length (m_Offsets st') = 1
     \<and> length (m_Confidences st') = 1"
proof -
  have single: "mergePeaks (Suc 0) defaultConfig lonePeakSurface ([5], [[10]]) = ([5], [[10]])"
    by (simp add: mergePeaks_def mergeLoop.simps resort_def Let_def)
  have "\<exists>st'. ComputeOffset releaseLine defaultConfig (maximaAt [[10]]) lonePeakInputs
            \<lparr>m_Offsets = [[Fin 0], [Fin 0]], m_Confidences = []\<rparr> = Inr st'
     \<and> length (m_Offsets st') = Suc 0
     \<and> length (m_Offsets st') \<le> Suc (Suc 0)
     \<and> length (m_Confidences st') = length (m_Offsets st')"
    using returned_count
      [where inp = lonePeakInputs and img = lonePeakSurface and b = releaseLine
        and cfg = defaultConfig and maxCalculator = "maximaAt [[10]]" and ci = "([5], [[10]])"
        and st = "\<lparr>m_Offsets = [[Fin 0], [Fin 0]], m_Confidences = []\<rparr>"]
    by (simp add: example_fields maximaAt_def lonePeak_adjusted requestedMaxima_def
        dropFromFirstNonPositive_def single)
  then show ?thesis
    by auto
qed

text \<open>
  Without a surface the lists are left as they were, of whatever lengths: after
  a run that returned one offset and a later request for three, three offsets
  stand beside one confidence. And with a maximum that is exactly 0 the count is
  that of the candidates the binary search keeps: two offsets are returned on
  the sample line, where one candidate has a positive confidence.
\<close>

theorem returned_count_counterexample:
  "ComputeOffset releaseLine defaultConfig (maximaAt [[10], [20]])
     (lonePeakInputs\<lparr>input := None\<rparr>)
     \<lparr>m_Offsets = [[Fin 3], [Fin 0], [Fin 0]], m_Confidences = [7000]\<rparr>
   = Inr \<lparr>m_Offsets = [[Fin 3], [Fin 0], [Fin 0]], m_Confidences = [7000]\<rparr>
   \<and> length [[Fin 3], [Fin 0], [Fin 0]] \<noteq> length [7000::real]
   \<and> ComputeOffset releaseLine defaultConfig (maximaAt [[10], [20]]) lonePeakInputs
       \<lparr>m_Offsets = [[Fin 0], [Fin 0]], m_Confidences = []\<rparr>
     = Inr \<lparr>m_Offsets = [[Fin 0], [NaN]], m_Confidences = [5000, 0]\<rparr>
   \<and> length [[Fin 0], [NaN]]
     \<noteq> min 2 (length (fst (mergePeaks 1 defaultConfig lonePeakSurface
                      (dropFromFirstNonPositive ([5, 0], [[10], [20]])))))"
proof -
  have merged: "mergePeaks 1 defaultConfig lonePeakSurface
        (dropFromFirstNonPositive ([5, 0], [[10], [20]]))
      = ([5], [[10]])"
    by (simp add: dropFromFirstNonPositive_def mergePeaks_def mergeLoop.simps resort_def Let_def)
  have absent: "ComputeOffset releaseLine defaultConfig (maximaAt [[10], [20]])
       (lonePeakInputs\<lparr>input := None\<rparr>)
       \<lparr>m_Offsets = [[Fin 3], [Fin 0], [Fin 0]], m_Confidences = [7000]\<rparr>
     = Inr \<lparr>m_Offsets = [[Fin 3], [Fin 0], [Fin 0]], m_Confidences = [7000]\<rparr>"
    by (simp add: ComputeOffset_def)
  show ?thesis
    unfolding merged lonePeak_zero_run absent by simp
qed

subsection \<open>Interpolation\<close>

text \<open>
  Claim C4, as amended. For every retained candidate \<open>m\<close> and every axis \<open>i\<close>
  whose two neighbours lie inside the grid, both interpolation formulas take
  \<open>y0\<close> and \<open>y2\<close> from the Adjusted Surface at index \<open>- 1\<close> and \<open>+ 1\<close> along
  the axis, and take as centre value \<open>y1\<close> the candidate's confidence
  \<^verbatim>\<open>m_Confidences[m]\<close>: the maximum reported for the peak plus the confidences
  of the candidates merged into it. The axis's component of the offset is
  resolved from the index refined with these three values.
\<close>

theorem centre_value_is_confidence:
  assumes "length (fst ci) = length (snd ci)"
    and "retainedPeaks (ImageDimension b) cfg img (length (m_Offsets st)) ci = (c, ix)"
    and "m < length c" and "i < ImageDimension b" and "length (ix ! m) = ImageDimension b"
    and "IsInside (ImageDimension b) img ((ix ! m)[i := ix ! m ! i - 1])"
    and "IsInside (ImageDimension b) img ((ix ! m)[i := ix ! m ! i + 1])"
    and "y0 = pixels iAdjusted ((ix ! m)[i := ix ! m ! i - 1])"
    and "y2 = pixels iAdjusted ((ix ! m)[i := ix ! m ! i + 1])"
  shows "m_Offsets (afterMaxima b cfg inp img iAdjusted ci st) ! m ! i =
     resolveAxis inp img i
       (case m_PeakInterpolationMethod cfg of
          Parabolic \<Rightarrow> parabolicStep y0 (c ! m) y2 (Fin (real_of_int (ix ! m ! i)))
        | Cosine \<Rightarrow> cosineStep (epsilon b) m y0 (c ! m) y2 (Fin (real_of_int (ix ! m ! i)))
        | PIM_None \<Rightarrow> Fin (real_of_int (ix ! m ! i)))"
proof -
  have "interpolatePeak b cfg img iAdjusted m (c ! m) (ix ! m) ! i =
      (case m_PeakInterpolationMethod cfg of
          Parabolic \<Rightarrow> parabolicStep y0 (c ! m) y2 (Fin (real_of_int (ix ! m ! i)))
        | Cosine \<Rightarrow> cosineStep (epsilon b) m y0 (c ! m) y2 (Fin (real_of_int (ix ! m ! i)))
        | PIM_None \<Rightarrow> Fin (real_of_int (ix ! m ! i)))"
    using assms(4,6-9)
    by (simp add: interpolatePeak_closed [OF assms(5)] refinedAxis_def
        split: PeakInterpolationMethod.split)
  then show ?thesis
    by (simp add: afterMaxima_offset_component [OF assms(1-4)])
qed

theorem centre_value_is_confidence_witness:
  "m_Offsets (afterMaxima \<lparr>NDEBUG = True, ImageDimension = 1, epsilon = 1 / 2 ^ 52\<rparr>
       \<lparr>m_PeakInterpolationMethod = Parabolic, m_MergePeaks = 1, m_ZeroSuppression = 5,
        m_PixelDistanceTolerance = 0\<rparr>
       \<lparr>input = None, spacing = [1], fixedOrigin = [0], movingOrigin = [0]\<rparr>
       \<lparr>regionIndex = [0], regionSize = [16], pixels = (\<lambda>ind. 0)\<rparr>
       \<lparr>regionIndex = [0], regionSize = [16],
        pixels = (\<lambda>ind. if ind = [5] then 5 else if ind = [6] then 4
                         else if ind = [4] then 3 else 0)\<rparr>
       ([5, 4], [[5], [6]])
       \<lparr>m_Offsets = [[Fin 0], [Fin 0]], m_Confidences = []\<rparr>) ! 0 ! 0
   = Fin (- (5 + 1 / 22))"
  using centre_value_is_confidence
    [where b = "\<lparr>NDEBUG = True, ImageDimension = 1, epsilon = 1 / 2 ^ 52\<rparr>"
      and cfg = "\<lparr>m_PeakInterpolationMethod = Parabolic, m_MergePeaks = 1,
        m_ZeroSuppression = 5, m_PixelDistanceTolerance = 0\<rparr>"
      and inp = "\<lparr>input = None, spacing = [1], fixedOrigin = [0], movingOrigin = [0]\<rparr>"
      and img = "\<lparr>regionIndex = [0], regionSize = [16], pixels = (\<lambda>ind. 0)\<rparr>"
      and iAdjusted = "\<lparr>regionIndex = [0], regionSize = [16],
        pixels = (\<lambda>ind. if ind = [5] then 5 else if ind = [6] then 4
                         else if ind = [4] then 3 else 0)\<rparr>"
      and ci = "([5, 4], [[5], [6]])" and c = "[9]" and ix = "[[5]]" and m = 0 and i = 0
      and ?y0.0 = 3 and ?y2.0 = 4
      and st = "\<lparr>m_Offsets = [[Fin 0], [Fin 0]], m_Confidences = []\<rparr>"]
  by (simp add: retainedPeaks_merged_pair IsInside_def parabolicStep_closed resolveAxis_def
      directOffset_def mirrorOffset_def adjustedSize_def xsub_def xle_def)

text \<open>
  After a merge the centre value is not the surface value at the peak: the
  maxima 5 at index 5 and 4 at index 6 merge into one candidate of confidence 9,
  the surface still holds 5 at index 5, and the offset is computed with 9.
\<close>

theorem centre_value_after_merge_counterexample:
  "pixels \<lparr>regionIndex = [0], regionSize = [16],
        pixels = (\<lambda>ind. if ind = [5] then 5 else if ind = [6] then 4
                         else if ind = [4] then (3::real) else 0)\<rparr> [5] = 5
   \<and> m_Offsets (afterMaxima \<lparr>NDEBUG = True, ImageDimension = 1, epsilon = 1 / 2 ^ 52\<rparr>
       \<lparr>m_PeakInterpolationMethod = Parabolic, m_MergePeaks = 1, m_ZeroSuppression = 5,
        m_PixelDistanceTolerance = 0\<rparr>
       \<lparr>input = None, spacing = [1], fixedOrigin = [0], movingOrigin = [0]\<rparr>
       \<lparr>regionIndex = [0], regionSize = [16], pixels = (\<lambda>ind. 0)\<rparr>
       \<lparr>regionIndex = [0], regionSize = [16],
        pixels = (\<lambda>ind. if ind = [5] then 5 else if ind = [6] then 4
                         else if ind = [4] then 3 else 0)\<rparr>
       ([5, 4], [[5], [6]])
       \<lparr>m_Offsets = [[Fin 0], [Fin 0]], m_Confidences = []\<rparr>)
     = [[resolveAxis \<lparr>input = None, spacing = [1], fixedOrigin = [0], movingOrigin = [0]\<rparr>
           \<lparr>regionIndex = [0], regionSize = [16], pixels = (\<lambda>ind. 0)\<rparr> 0
           (parabolicStep 3 9 4 (Fin 5))]]
   \<and> parabolicStep 3 9 4 (Fin 5) = Fin (5 + 1 / 22)
   \<and> parabolicStep 3 5 4 (Fin 5) = Fin (5 + 1 / 6)
   \<and> resolveAxis \<lparr>input = None, spacing = [1], fixedOrigin = [0], movingOrigin = [0]\<rparr>
           \<lparr>regionIndex = [0], regionSize = [16], pixels = (\<lambda>ind. 0)\<rparr> 0
           (parabolicStep 3 9 4 (Fin 5))
       \<noteq> resolveAxis \<lparr>input = None, spacing = [1], fixedOrigin = [0], movingOrigin = [0]\<rparr>
           \<lparr>regionIndex = [0], regionSize = [16], pixels = (\<lambda>ind. 0)\<rparr> 0
           (parabolicStep 3 5 4 (Fin 5))"
  by (simp add: afterMaxima_result retainedPeaks_merged_pair peakOffset_def
      interpolatePeak_closed refinedAxis_def IsInside_def parabolicStep_closed resolveAxis_def
      directOffset_def mirrorOffset_def adjustedSize_def xsub_def xle_def)

text \<open>An offset resolved from an index that is not finite is not finite either.\<close>

lemma infOfSign_nonfinite: "\<not> xfinite (infOfSign s)"
  by (simp add: infOfSign_def)

lemma xmul_nonfinite: "\<not> xfinite x \<Longrightarrow> \<not> xfinite (xmul (Fin s) x)"
  by (cases x) (simp_all add: infOfSign_def)

lemma xsub_left_nonfinite: "\<not> xfinite x \<Longrightarrow> \<not> xfinite (xsub x (Fin a))"
  by (cases x) (simp_all add: xsub_def)

lemma xsub_right_nonfinite: "\<not> xfinite x \<Longrightarrow> \<not> xfinite (xsub (Fin a) x)"
  by (cases x) (simp_all add: xsub_def)

lemma directOffset_nonfinite: "\<not> xfinite x \<Longrightarrow> \<not> xfinite (directOffset inp img i x)"
  unfolding directOffset_def
  by (intro xsub_right_nonfinite xmul_nonfinite xsub_left_nonfinite)

lemma mirrorOffset_nonfinite: "\<not> xfinite x \<Longrightarrow> \<not> xfinite (mirrorOffset inp img i x)"
  unfolding mirrorOffset_def
  by (intro xsub_right_nonfinite xmul_nonfinite xsub_left_nonfinite)

lemma resolveAxis_nonfinite: "\<not> xfinite x \<Longrightarrow> \<not> xfinite (resolveAxis inp img i x)"
  by (simp add: resolveAxis_def directOffset_nonfinite mirrorOffset_nonfinite)

text \<open>
  Claim C9, as amended. Under Parabolic interpolation the quotient
  \<open>(y0 - y2) / (2 * (y0 - 2 * y1 + y2))\<close> is added to the index without a guard.
  Where the denominator is not zero, the continuous index is the integer index
  plus the quotient. Where it is exactly zero, the continuous index does not
  remain the integer index: it is an infinity when \<open>y0\<close> and \<open>y2\<close> differ and
  a NaN when they are equal, and the offset resolved from it, the component
  stored in the candidate's Offset Vector, is not finite either. No error comes
  from the interpolation: whenever the calculator returns lists of equal length,
  the computation returns a result.
\<close>

theorem parabolic_unguarded_division:
  assumes "m_PeakInterpolationMethod cfg = Parabolic"
    and "length ind = ImageDimension b" and "i < ImageDimension b"
    and "IsInside (ImageDimension b) img (ind[i := ind ! i - 1])"
    and "IsInside (ImageDimension b) img (ind[i := ind ! i + 1])"
    and "y0 = pixels iAdjusted (ind[i := ind ! i - 1])"
    and "y2 = pixels iAdjusted (ind[i := ind ! i + 1])"
  shows "interpolatePeak b cfg img iAdjusted m y1 ind ! i =
     (if 2 * (y0 - 2 * y1 + y2) \<noteq> 0
      then Fin (real_of_int (ind ! i) + (y0 - y2) / (2 * (y0 - 2 * y1 + y2)))
      else if y2 < y0 then PInf else if y0 < y2 then MInf else NaN)
   \<and> (2 * (y0 - 2 * y1 + y2) = 0 \<longrightarrow>
        \<not> xfinite (interpolatePeak b cfg img iAdjusted m y1 ind ! i)
        \<and> (\<forall>inp. \<not> xfinite (resolveAxis inp img i
                                (interpolatePeak b cfg img iAdjusted m y1 ind ! i)))
        \<and> (\<forall>inp ci st c ix.
              length (fst ci) = length (snd ci)
              \<and> retainedPeaks (ImageDimension b) cfg img (length (m_Offsets st)) ci = (c, ix)
              \<and> m < length c \<and> c ! m = y1 \<and> ix ! m = ind
              \<longrightarrow> \<not> xfinite (m_Offsets (afterMaxima b cfg inp img iAdjusted ci st) ! m ! i)))
   \<and> (\<forall>maxCalculator inp st ci.
         input inp = Some img
         \<and> maxCalculator (adjustedSurface b cfg inp img)
              (requestedMaxima (m_MergePeaks cfg) (length (m_Offsets st)) (ImageDimension b))
            = Inr ci
         \<and> length (fst ci) = length (snd ci)
         \<longrightarrow> ComputeOffset b cfg maxCalculator inp st
             = Inr (afterMaxima b cfg inp img (adjustedSurface b cfg inp img) ci st))"
proof -
  let ?x = "interpolatePeak b cfg img iAdjusted m y1 ind ! i"
  have "?x = refinedAxis b cfg img iAdjusted m y1 ind i"
    using assms(1,3) by (simp add: interpolatePeak_closed [OF assms(2)])
  also have "\<dots> = parabolicStep y0 y1 y2 (Fin (real_of_int (ind ! i)))"
    using assms(1,4-7) by (simp add: refinedAxis_def)
  finally have closed: "?x =
     (if 2 * (y0 - 2 * y1 + y2) \<noteq> 0
      then Fin (real_of_int (ind ! i) + (y0 - y2) / (2 * (y0 - 2 * y1 + y2)))
      else if y2 < y0 then PInf else if y0 < y2 then MInf else NaN)"
    by (simp only: parabolicStep_closed)
  have degenerate: "\<not> xfinite ?x" if "2 * (y0 - 2 * y1 + y2) = 0"
    using that by (simp add: closed)
  have stored: "\<not> xfinite (m_Offsets (afterMaxima b cfg inp img iAdjusted ci st) ! m ! i)"
    if "2 * (y0 - 2 * y1 + y2) = 0" and "length (fst ci) = length (snd ci)"
      and "retainedPeaks (ImageDimension b) cfg img (length (m_Offsets st)) ci = (c, ix)"
      and "m < length c" and "c ! m = y1" and "ix ! m = ind"
    for inp ci st c ix
  proof -
    have "m_Offsets (afterMaxima b cfg inp img iAdjusted ci st) ! m ! i
        = resolveAxis inp img i ?x"
      using afterMaxima_offset_component [OF that(2,3,4) assms(3)] that(5,6) by simp
    then show ?thesis
      using resolveAxis_nonfinite [OF degenerate [OF that(1)]] by simp
  qed
  have run: "ComputeOffset b cfg maxCalculator inp st
      = Inr (afterMaxima b cfg inp img (adjustedSurface b cfg inp img) ci st)"
    if "input inp = Some img"
      and "maxCalculator (adjustedSurface b cfg inp img)
              (requestedMaxima (m_MergePeaks cfg) (length (m_Offsets st)) (ImageDimension b))
            = Inr ci"
      and "length (fst ci) = length (snd ci)"
    for maxCalculator inp st ci
    using that by (simp add: ComputeOffset_def Let_def)
  show ?thesis
    using closed degenerate resolveAxis_nonfinite stored run by blast
qed

theorem parabolic_unguarded_division_witness:
  "interpolatePeak \<lparr>NDEBUG = True, ImageDimension = 1, epsilon = 1 / 2 ^ 52\<rparr>
     \<lparr>m_PeakInterpolationMethod = Parabolic, m_MergePeaks = 1, m_ZeroSuppression = 5,
      m_PixelDistanceTolerance = 0\<rparr>
     \<lparr>regionIndex = [0], regionSize = [8], pixels = (\<lambda>ind. 1)\<rparr>
     \<lparr>regionIndex = [0], regionSize = [8],
      pixels = (\<lambda>ind. if ind = [2] then 8 else if ind = [4] then 6 else 0)\<rparr>
     0 10 [3] ! 0 = Fin (3 - 1 / 6)
   \<and> \<not> xfinite (m_Offsets (afterMaxima
       \<lparr>NDEBUG = True, ImageDimension = 1, epsilon = 1 / 2 ^ 52\<rparr>
       \<lparr>m_PeakInterpolationMethod = Parabolic, m_MergePeaks = 1, m_ZeroSuppression = 5,
        m_PixelDistanceTolerance = 0\<rparr>
       \<lparr>input = None, spacing = [1], fixedOrigin = [0], movingOrigin = [0]\<rparr>
       \<lparr>regionIndex = [0], regionSize = [8], pixels = (\<lambda>ind. 1)\<rparr>
       \<lparr>regionIndex = [0], regionSize = [8], pixels = (\<lambda>ind. 1)\<rparr>
       ([1], [[3]])
       \<lparr>m_Offsets = [[Fin 0]], m_Confidences = []\<rparr>) ! 0 ! 0)"
proof -
  let ?b = "\<lparr>NDEBUG = True, ImageDimension = 1, epsilon = 1 / 2 ^ 52\<rparr>"
  let ?cfg = "\<lparr>m_PeakInterpolationMethod = Parabolic, m_MergePeaks = 1,
        m_ZeroSuppression = 5, m_PixelDistanceTolerance = 0\<rparr>"
  let ?img = "\<lparr>regionIndex = [0], regionSize = [8], pixels = (\<lambda>ind. 1)\<rparr>"
  let ?inp = "\<lparr>input = None, spacing = [1], fixedOrigin = [0], movingOrigin = [0]\<rparr>"
  let ?st = "\<lparr>m_Offsets = [[Fin 0]], m_Confidences = []\<rparr>"
  have sloped: "interpolatePeak ?b ?cfg ?img
     \<lparr>regionIndex = [0], regionSize = [8],
      pixels = (\<lambda>ind. if ind = [2] then 8 else if ind = [4] then 6 else 0)\<rparr>
     0 10 [3] ! 0 = Fin (3 - 1 / 6)"
    using parabolic_unguarded_division
      [where b = ?b and cfg = ?cfg and img = ?img
        and iAdjusted = "\<lparr>regionIndex = [0], regionSize = [8],
          pixels = (\<lambda>ind. if ind = [2] then 8 else if ind = [4] then 6 else 0)\<rparr>"
        and ind = "[3]" and i = 0 and m = 0 and ?y1.0 = 10 and ?y0.0 = 8 and ?y2.0 = 6]
    by (simp add: IsInside_def)
  have "\<forall>inp ci st c ix.
          length (fst ci) = length (snd ci)
          \<and> retainedPeaks (ImageDimension ?b) ?cfg ?img (length (m_Offsets st)) ci = (c, ix)
          \<and> 0 < length c \<and> c ! 0 = 1 \<and> ix ! 0 = [3]
          \<longrightarrow> \<not> xfinite (m_Offsets (afterMaxima ?b ?cfg inp ?img ?img ci st) ! 0 ! 0)"
    using parabolic_unguarded_division
      [where b = ?b and cfg = ?cfg and img = ?img and iAdjusted = ?img
        and ind = "[3]" and i = 0 and m = 0 and ?y1.0 = 1 and ?y0.0 = 1 and ?y2.0 = 1]
    by (simp add: IsInside_def)
  then have "length (fst ([1::real], [[3::int]])) = length (snd ([1::real], [[3::int]]))
          \<and> retainedPeaks (ImageDimension ?b) ?cfg ?img (length (m_Offsets ?st)) ([1], [[3]])
              = ([1], [[3]])
          \<and> 0 < length [1::real] \<and> [1::real] ! 0 = 1 \<and> [[3::int]] ! 0 = [3]
          \<longrightarrow> \<not> xfinite (m_Offsets (afterMaxima ?b ?cfg ?inp ?img ?img ([1], [[3]]) ?st) ! 0 ! 0)"
    by blast
  then have "\<not> xfinite (m_Offsets (afterMaxima ?b ?cfg ?inp ?img ?img ([1], [[3]]) ?st) ! 0 ! 0)"
    by (simp add: retainedPeaks_single)
  with sloped show ?thesis
    by simp
qed

text \<open>
  On a flat neighbourhood (\<open>y0 = y1 = y2 = 1\<close>) the denominator is 0, the
  refined index is a NaN, not the integer index 3, and the offset returned for
  the candidate is a NaN.
\<close>

theorem parabolic_flat_counterexample:
  "2 * ((1::real) - 2 * 1 + 1) = 0
   \<and> interpolatePeak \<lparr>NDEBUG = True, ImageDimension = 1, epsilon = 1 / 2 ^ 52\<rparr>
     \<lparr>m_PeakInterpolationMethod = Parabolic, m_MergePeaks = 1, m_ZeroSuppression = 5,
      m_PixelDistanceTolerance = 0\<rparr>
     \<lparr>regionIndex = [0], regionSize = [8], pixels = (\<lambda>ind. 1)\<rparr>
     \<lparr>regionIndex = [0], regionSize = [8], pixels = (\<lambda>ind. 1)\<rparr>
     0 1 [3] = [NaN]
   \<and> [NaN] \<noteq> [Fin (real_of_int 3)]
   \<and> m_Offsets (afterMaxima
       \<lparr>NDEBUG = True, ImageDimension = 1, epsilon = 1 / 2 ^ 52\<rparr>
       \<lparr>m_PeakInterpolationMethod = Parabolic, m_MergePeaks = 1, m_ZeroSuppression = 5,
        m_PixelDistanceTolerance = 0\<rparr>
       \<lparr>input = None, spacing = [1], fixedOrigin = [0], movingOrigin = [0]\<rparr>
       \<lparr>regionIndex = [0], regionSize = [8], pixels = (\<lambda>ind. 1)\<rparr>
       \<lparr>regionIndex = [0], regionSize = [8], pixels = (\<lambda>ind. 1)\<rparr>
       ([1], [[3]])
       \<lparr>m_Offsets = [[Fin 0]], m_Confidences = []\<rparr>) = [[NaN]]"
  by (simp add: afterMaxima_result retainedPeaks_single peakOffset_def
      interpolatePeak_closed refinedAxis_def IsInside_def parabolicStep_closed resolveAxis_def
      directOffset_def mirrorOffset_def adjustedSize_def xsub_def xle_def)

subsection \<open>Resolution of the offset\<close>

text \<open>
  Claim C10. For every retained candidate and every axis, when the direct and
  the mirror offset of the refined index have equal absolute value, the axis's
  component of the Offset Vector is the direct offset, the one computed against
  the start index of the grid.
\<close>

theorem tie_resolves_to_direct_offset:
  assumes "length (fst ci) = length (snd ci)"
    and "retainedPeaks (ImageDimension b) cfg img (length (m_Offsets st)) ci = (c, ix)"
    and "m < length c" and "i < ImageDimension b"
    and "x = interpolatePeak b cfg img iAdjusted m (c ! m) (ix ! m) ! i"
    and "xeq (xabs (directOffset inp img i x)) (xabs (mirrorOffset inp img i x))"
  shows "m_Offsets (afterMaxima b cfg inp img iAdjusted ci st) ! m ! i = directOffset inp img i x
     \<and> resolveAxis inp img i x = directOffset inp img i x
     \<and> (\<forall>r. x = Fin r \<longrightarrow>
            directOffset inp img i x =
            Fin ((movingOrigin inp ! i - fixedOrigin inp ! i)
                 - spacing inp ! i * (r - real_of_int (regionIndex img ! i))))"
proof -
  have "resolveAxis inp img i x = directOffset inp img i x"
    using assms(6) by (simp add: resolveAxis_def xle_def)
  moreover have "m_Offsets (afterMaxima b cfg inp img iAdjusted ci st) ! m ! i
      = resolveAxis inp img i x"
    unfolding assms(5) by (rule afterMaxima_offset_component [OF assms(1-4)])
  moreover have "directOffset inp img i (Fin r) =
      Fin ((movingOrigin inp ! i - fixedOrigin inp ! i)
           - spacing inp ! i * (r - real_of_int (regionIndex img ! i)))" for r
    by (simp add: directOffset_def xsub_def)
  ultimately show ?thesis
    by simp
qed

theorem tie_resolves_to_direct_offset_witness:
  "m_Offsets (afterMaxima \<lparr>NDEBUG = True, ImageDimension = 1, epsilon = 1 / 2 ^ 52\<rparr>
       \<lparr>m_PeakInterpolationMethod = PIM_None, m_MergePeaks = 1, m_ZeroSuppression = 5,
        m_PixelDistanceTolerance = 0\<rparr>
       \<lparr>input = None, spacing = [1], fixedOrigin = [0], movingOrigin = [0]\<rparr>
       \<lparr>regionIndex = [0], regionSize = [4], pixels = (\<lambda>ind. 0)\<rparr>
       \<lparr>regionIndex = [0], regionSize = [4], pixels = (\<lambda>ind. if ind = [2] then 5 else 0)\<rparr>
       ([5], [[2]])
       \<lparr>m_Offsets = [[Fin 0]], m_Confidences = []\<rparr>) ! 0 ! 0 = Fin (- 2)
   \<and> mirrorOffset \<lparr>input = None, spacing = [1], fixedOrigin = [0], movingOrigin = [0]\<rparr>
       \<lparr>regionIndex = [0], regionSize = [4], pixels = (\<lambda>ind. 0)\<rparr> 0 (Fin 2) = Fin 2"
  using tie_resolves_to_direct_offset
    [where b = "\<lparr>NDEBUG = True, ImageDimension = 1, epsilon = 1 / 2 ^ 52\<rparr>"
      and cfg = "\<lparr>m_PeakInterpolationMethod = PIM_None, m_MergePeaks = 1, m_ZeroSuppression = 5,
        m_PixelDistanceTolerance = 0\<rparr>"
      and inp = "\<lparr>input = None, spacing = [1], fixedOrigin = [0], movingOrigin = [0]\<rparr>"
      and img = "\<lparr>regionIndex = [0], regionSize = [4], pixels = (\<lambda>ind. 0)\<rparr>"
      and iAdjusted = "\<lparr>regionIndex = [0], regionSize = [4],
        pixels = (\<lambda>ind. if ind = [2] then 5 else 0)\<rparr>"
      and ci = "([5], [[2]])" and c = "[5]" and ix = "[[2]]" and m = 0 and i = 0
      and x = "Fin 2"
      and st = "\<lparr>m_Offsets = [[Fin 0]], m_Confidences = []\<rparr>"]
  by (simp add: retainedPeaks_single interpolatePeak_def directOffset_def mirrorOffset_def
      adjustedSize_def xsub_def)

subsection \<open>No input\<close>

text \<open>
  Claim C6, as amended. If no Correlation Surface is supplied, the estimator
  returns at once, without a fault and without any computation (no adjusted
  surface is built and the calculator is not invoked, whatever it would have
  done): the offsets and confidences are left exactly as they were before the
  call.
\<close>

theorem absent_input_leaves_state:
  assumes "input inp = None"
  shows "ComputeOffset b cfg maxCalculator inp st = Inr st"
  using assms by (simp add: ComputeOffset_def)

theorem absent_input_leaves_state_witness:
  "ComputeOffset \<lparr>NDEBUG = True, ImageDimension = 2, epsilon = 1 / 2 ^ 52\<rparr>
     \<lparr>m_PeakInterpolationMethod = Parabolic, m_MergePeaks = 1, m_ZeroSuppression = 5,
      m_PixelDistanceTolerance = 0\<rparr>
     (\<lambda>img n. Inl MaxCalculatorException)
     \<lparr>input = None, spacing = [1, 1], fixedOrigin = [0, 0], movingOrigin = [0, 0]\<rparr>
     \<lparr>m_Offsets = [[Fin 0, Fin 0]], m_Confidences = []\<rparr>
   = Inr \<lparr>m_Offsets = [[Fin 0, Fin 0]], m_Confidences = []\<rparr>"
  using absent_input_leaves_state
    [where inp = "\<lparr>input = None, spacing = [1, 1], fixedOrigin = [0, 0],
       movingOrigin = [0, 0]\<rparr>"]
  by simp

text \<open>
  What is returned is therefore not always a single all-zero offset: two offsets
  of an earlier run are still there after a call without a surface.
\<close>

theorem absent_input_stale_offsets_counterexample:
  "ComputeOffset \<lparr>NDEBUG = True, ImageDimension = 2, epsilon = 1 / 2 ^ 52\<rparr>
     \<lparr>m_PeakInterpolationMethod = Parabolic, m_MergePeaks = 1, m_ZeroSuppression = 5,
      m_PixelDistanceTolerance = 0\<rparr>
     (\<lambda>img n. Inl MaxCalculatorException)
     \<lparr>input = None, spacing = [1, 1], fixedOrigin = [0, 0], movingOrigin = [0, 0]\<rparr>
     \<lparr>m_Offsets = [[Fin 3, Fin (- 4)], [Fin 0, Fin 7]], m_Confidences = [9000, 4000]\<rparr>
   = Inr \<lparr>m_Offsets = [[Fin 3, Fin (- 4)], [Fin 0, Fin 7]], m_Confidences = [9000, 4000]\<rparr>
   \<and> [[Fin 3, Fin (- 4)], [Fin 0, Fin 7]] \<noteq> [[Fin 0, Fin 0]]"
  by (simp add: ComputeOffset_def)

end
